theory Spec2Isabelle
  imports Complex_Main
begin

section \<open>The chiplet model generator\<close>

text \<open>
  A shallow embedding of the two copies of \<^verbatim>\<open>generate_chiplet_model.py\<close>:
  \<^item> \<^verbatim>\<open>golang/uPIMulator/tools/generate_chiplet_model.py\<close>, the generator that plans
    token chunks and emits per-chunk stages (definitions under the source's names);
  \<^item> \<^verbatim>\<open>tools/generate_chiplet_model.py\<close>, the older generator with one stage per
    layer step and host transfers (definitions with the prefix \<open>t_\<close>).

  Python's unbounded integers are \<open>int\<close>; \<open>//\<close> and \<open>%\<close> are \<open>div\<close> and \<open>mod\<close>
  (both floor, as in Python). Every raise is a value of \<open>py_error\<close>; the two
  \<^verbatim>\<open>ValueError\<close>s are the one \<^verbatim>\<open>int()\<close> raises on a NaN and the one
  \<^verbatim>\<open>generate_chiplet_model\<close> raises when the model has no experts.
\<close>

datatype py_error =
  ZeroDivisionError | IndexError | KeyError | TypeError | OverflowError | FileNotFoundError |
  ValueError_nan | ValueError_moe_disabled

subsection \<open>\<^verbatim>\<open>build_chunk_plan\<close>\<close>

text \<open>
  The \<^verbatim>\<open>while remaining > 0\<close> loop of \<^verbatim>\<open>build_chunk_plan\<close>. The source enters it
  with \<^verbatim>\<open>tokens_per_chunk = max(..., 1)\<close>, so every round takes at least one token;
  the guard \<open>1 \<le> tokens_per_chunk\<close> records that fact and makes the recursion total.
\<close>

function plan_loop :: "int \<Rightarrow> int \<Rightarrow> int list \<Rightarrow> int list" where
  "plan_loop tokens_per_chunk remaining plan =
     (if remaining > 0 \<and> 1 \<le> tokens_per_chunk then
        let take = min tokens_per_chunk remaining
        in plan_loop tokens_per_chunk (remaining - take) (plan @ [take])
      else plan)"
  by pat_completeness auto
termination
  by (relation "measure (\<lambda>(t, r, p). nat r)") auto

declare plan_loop.simps [simp del]

definition build_chunk_plan :: "int \<Rightarrow> int \<Rightarrow> int \<Rightarrow> int \<Rightarrow> py_error + int list" where
  "build_chunk_plan tokens hidden_size dtype_bytes chunk_bytes =
     (if tokens \<le> 0 then Inr []
      else
        let per_token_bytes0 = max (hidden_size * dtype_bytes) dtype_bytes;
            per_token_bytes = (if per_token_bytes0 \<le> 0 then dtype_bytes else per_token_bytes0)
        in if per_token_bytes = 0 then Inl ZeroDivisionError
           else
             let tokens_per_chunk = max (chunk_bytes div per_token_bytes) 1;
                 plan = plan_loop tokens_per_chunk tokens []
             in Inr (if plan = [] then [tokens] else plan))"


subsection \<open>Python values, names and stages\<close>

text \<open>
  Python's true division \<^verbatim>\<open>a / b\<close> of two integers yields a double. The generator only
  uses it under \<^verbatim>\<open>math.ceil\<close> and \<^verbatim>\<open>int\<close> with a positive divisor; the model takes
  the quotient exactly, which is what the double holds whenever \<open>\<bar>a\<bar> < 2^53\<close>.
  \<open>ceil_div a b\<close> is \<^verbatim>\<open>int(math.ceil(a / b))\<close> and \<open>trunc_div a b\<close> is
  \<^verbatim>\<open>int(a / b)\<close> (rounding toward zero) for \<open>0 < b\<close>.
\<close>

definition ceil_div :: "int \<Rightarrow> int \<Rightarrow> int" where
  "ceil_div a b = - ((- a) div b)"

definition trunc_div :: "int \<Rightarrow> int \<Rightarrow> int" where
  "trunc_div a b = (if 0 \<le> a then a div b else - ((- a) div b))"

text \<open>\<^verbatim>\<open>range(n)\<close> and \<^verbatim>\<open>enumerate(xs)\<close>; loop indices are natural numbers.\<close>

definition py_range :: "int \<Rightarrow> nat list" where
  "py_range n = [0..<nat n]"

definition py_enumerate :: "'a list \<Rightarrow> (nat \<times> 'a) list" where
  "py_enumerate xs = zip [0..<length xs] xs"

text \<open>A \<^verbatim>\<open>for\<close> loop whose body may raise: the first error ends the loop.\<close>

fun for_each :: "('a \<Rightarrow> 's \<Rightarrow> py_error + 's) \<Rightarrow> 'a list \<Rightarrow> 's \<Rightarrow> py_error + 's" where
  "for_each body [] s = Inr s"
| "for_each body (x # xs) s = (case body x s of Inl e \<Rightarrow> Inl e | Inr s' \<Rightarrow> for_each body xs s')"

text \<open>
  The values stored under the keys of a stage that no claim reads (\<^verbatim>\<open>rows\<close>,
  \<^verbatim>\<open>aux\<close>, \<^verbatim>\<open>metadata\<close>, ...).
\<close>

datatype py_value =
  VInt int | VStr string | VBool bool | VList "py_value list" | VDict "(string \<times> py_value) list"

text \<open>
  An f-string is kept as its segments: \<^verbatim>\<open>f"attn_score_L{layer_idx}_C{chunk_idx}"\<close> is
  \<open>[Lit ''attn_score_L'', Num layer_idx, Lit ''_C'', Num chunk_idx]\<close>.
\<close>

datatype name_part = Lit string | Num int

type_synonym py_name = "name_part list"

datatype stage_type =
  Token_prep | Transfer | Rram_linear | Attention | Softmax | Moe_gating | Moe_linear |
  Moe_merge | Postprocess

datatype transfer_direction = Digital_to_rram | Rram_to_digital | Host_to_digital | Digital_to_host

text \<open>One entry of a \<^verbatim>\<open>moe_linear\<close> stage's \<^verbatim>\<open>experts\<close> list.\<close>

record expert =
  e_name :: py_name
  e_chiplet :: int
  e_activation_bytes :: int
  e_weight_bytes :: int
  e_execute_latency :: int
  e_chunk_index :: "int option"
  e_metadata :: "(string \<times> py_value) list option"

text \<open>
  A stage dictionary. The keys the claims speak about are fields of their own, \<open>None\<close>
  when the dictionary has no such key; the remaining keys are kept, in the order of the
  source's dict literal, in \<open>other\<close>.
\<close>

record stage =
  stype :: stage_type
  name :: py_name
  deps :: "int list option"
  direction :: "transfer_direction option"
  chiplet :: "int option"
  queue :: "int option"
  bytes :: "int option"
  latency :: "int option"
  weight_bytes :: "int option"
  experts :: "expert list option"
  other :: "(string \<times> py_value) list"

definition stage_dict :: "stage_type \<Rightarrow> py_name \<Rightarrow> stage" where
  "stage_dict t n =
     \<lparr>stype = t, name = n, deps = None, direction = None, chiplet = None, queue = None,
      bytes = None, latency = None, weight_bytes = None, experts = None, other = []\<rparr>"

subsection \<open>\<^verbatim>\<open>append_stage\<close> and \<^verbatim>\<open>append_chunked_stage\<close>\<close>

text \<open>
  \<^verbatim>\<open>append_stage\<close> stores the dependencies in the stage (\<open>set_deps\<close>), appends it
  to the list and returns its index; the model returns the index and the new list.
\<close>

definition set_deps :: "stage list \<Rightarrow> stage \<Rightarrow> int list option \<Rightarrow> stage" where
  "set_deps sequence st depends =
     (case depends of
        None \<Rightarrow> (if sequence \<noteq> [] then st\<lparr>deps := Some [int (length sequence) - 1]\<rparr> else st)
      | Some ds \<Rightarrow> st\<lparr>deps := Some ds\<rparr>)"

definition append_stage :: "stage list \<Rightarrow> stage \<Rightarrow> int list option \<Rightarrow> int \<times> stage list" where
  "append_stage sequence st depends =
     (let sequence' = sequence @ [set_deps sequence st depends]
      in (int (length sequence') - 1, sequence'))"

text \<open>
  The dependency arguments of \<^verbatim>\<open>append_chunked_stage\<close> are \<^verbatim>\<open>None\<close>, an integer or
  a sequence; every sequence the generator passes holds integers only, so the
  \<^verbatim>\<open>isinstance(v, int)\<close> filter keeps all of it.
\<close>

datatype dep_value = DNone | DInt int | DSeq "int list"

fun normalize_deps :: "dep_value \<Rightarrow> int list" where
  "normalize_deps DNone = []"
| "normalize_deps (DInt v) = [v]"
| "normalize_deps (DSeq vs) = vs"

fun chunked_stage_step ::
  "(nat \<Rightarrow> int \<Rightarrow> stage) \<Rightarrow> int list \<Rightarrow> dep_value list option \<Rightarrow> bool \<Rightarrow> nat \<times> int \<Rightarrow>
   stage list \<times> int list \<times> int option \<Rightarrow> stage list \<times> int list \<times> int option" where
  "chunked_stage_step stage_builder base_list per_chunk_dep enforce_sequential (idx, token_count)
     (sequence, chunk_ids, prev_idx) =
     (let deps0 = (case per_chunk_dep of
                     None \<Rightarrow> []
                   | Some pcd \<Rightarrow> (if idx < length pcd then normalize_deps (pcd ! idx) else []));
          deps1 = (if idx = 0 \<and> deps0 = [] \<and> base_list \<noteq> [] then deps0 @ base_list else deps0);
          deps2 = (case prev_idx of
                     None \<Rightarrow> deps1
                   | Some p \<Rightarrow> (if enforce_sequential then deps1 @ [p] else deps1));
          st = stage_builder idx token_count;
          dep_arg = (if deps2 \<noteq> [] then Some deps2 else None);
          (stage_idx, sequence') = append_stage sequence st dep_arg
      in (sequence', chunk_ids @ [stage_idx], Some stage_idx))"

definition append_chunked_stage ::
  "stage list \<Rightarrow> (nat \<Rightarrow> int \<Rightarrow> stage) \<Rightarrow> int list \<Rightarrow> dep_value \<Rightarrow> dep_value list option \<Rightarrow>
   bool \<Rightarrow> int list \<times> stage list" where
  "append_chunked_stage sequence stage_builder plan base_dep per_chunk_dep enforce_sequential =
     (if plan = [] then ([], sequence)
      else
        let base_list = normalize_deps base_dep;
            (sequence', chunk_ids, prev_idx) =
              fold (chunked_stage_step stage_builder base_list per_chunk_dep enforce_sequential)
                (py_enumerate plan) (sequence, [], None)
        in (chunk_ids, sequence'))"

subsection \<open>\<^verbatim>\<open>build_moe_sequence\<close> (golang/uPIMulator/tools)\<close>

text \<open>
  The arguments of \<^verbatim>\<open>build_moe_sequence\<close>. \<^verbatim>\<open>digital_latency_scale\<close> is a float that
  the source only uses in \<^verbatim>\<open>int(hidden_size * digital_latency_scale)\<close>; the model takes
  that computation as a function of \<open>hidden_size\<close> (an error for an infinite or NaN
  product), and assumes nothing about it.
\<close>

record moe_args =
  layers :: int
  hidden_size :: int
  intermediate_size :: int
  num_experts :: int
  experts_per_tok :: int
  seq_length :: int
  batch :: int
  dtype_bytes :: int
  digital_chiplets :: int
  rram_chiplets :: int
  digital_latency_scale :: "int \<Rightarrow> py_error + int"
  chunk_bytes :: int

text \<open>
  The local variables of \<^verbatim>\<open>build_moe_sequence\<close> that its nested functions and lambdas read:
  the arguments after their reassignment (\<^verbatim>\<open>dtype_bytes = max(dtype_bytes, 1)\<close>, ...)
  and the values computed before the layer loop.
\<close>

record frame = moe_args +
  tokens :: int
  activation_bytes_total :: int
  projection_weight_bytes :: int
  expert_weight_bytes :: int
  chunk_plan :: "int list"
  chunk_byte_plan :: "int list"
  num_chunks :: int
  digital_latency_base :: int
  expert_chips :: "int list"

text \<open>
  \<^verbatim>\<open>chunk_digital_owner\<close> reads the variable \<^verbatim>\<open>digital_chiplets\<close> when it is called,
  that is after \<^verbatim>\<open>digital_chiplets = max(digital_chiplets, 1)\<close>: every call is made from
  the layer loop.
\<close>

definition chunk_digital_owner :: "frame \<Rightarrow> nat \<Rightarrow> nat \<Rightarrow> int" where
  "chunk_digital_owner f layer_idx chunk_idx =
     (if digital_chiplets f \<le> 0 then 0
      else (int layer_idx + int chunk_idx) mod digital_chiplets f)"

definition make_frame :: "moe_args \<Rightarrow> py_error + frame" where
  "make_frame a =
     (let dtype_bytes' = max (dtype_bytes a) 1;
          chunk_bytes' = max (chunk_bytes a) dtype_bytes';
          tokens' = seq_length a * batch a;
          activation_bytes_total' = tokens' * hidden_size a * dtype_bytes';
          projection_weight_bytes' = hidden_size a * hidden_size a * dtype_bytes';
          expert_weight_bytes' = hidden_size a * intermediate_size a * dtype_bytes'
      in case build_chunk_plan tokens' (hidden_size a) dtype_bytes' chunk_bytes' of
           Inl e \<Rightarrow> Inl e
         | Inr plan0 \<Rightarrow>
             let chunk_plan' = (if plan0 = [] then [tokens'] else plan0);
                 chunk_byte_plan' =
                   map (\<lambda>chunk_tokens. max (chunk_tokens * hidden_size a * dtype_bytes') dtype_bytes')
                     chunk_plan'
             in case digital_latency_scale a (hidden_size a) of
                  Inl e \<Rightarrow> Inl e
                | Inr scaled \<Rightarrow>
                    let digital_chiplets' = max (digital_chiplets a) 1;
                        rram_chiplets' = max (rram_chiplets a) 1
                    in Inr \<lparr>layers = layers a, hidden_size = hidden_size a,
                            intermediate_size = intermediate_size a, num_experts = num_experts a,
                            experts_per_tok = experts_per_tok a, seq_length = seq_length a,
                            batch = batch a, dtype_bytes = dtype_bytes',
                            digital_chiplets = digital_chiplets', rram_chiplets = rram_chiplets',
                            digital_latency_scale = digital_latency_scale a,
                            chunk_bytes = chunk_bytes', tokens = tokens',
                            activation_bytes_total = activation_bytes_total',
                            projection_weight_bytes = projection_weight_bytes',
                            expert_weight_bytes = expert_weight_bytes',
                            chunk_plan = chunk_plan', chunk_byte_plan = chunk_byte_plan',
                            num_chunks = int (length chunk_plan'),
                            digital_latency_base = max scaled 1,
                            expert_chips = map (\<lambda>chip_idx. int chip_idx mod rram_chiplets')
                                             (py_range (num_experts a))\<rparr>)"

text \<open>The stage dictionaries, one definition per dict literal of the source.\<close>

definition embed_dict :: "frame \<Rightarrow> stage" where
  "embed_dict f =
     (stage_dict Token_prep [Lit ''embed''])
       \<lparr>latency := Some (max (digital_latency_base f div 8) 2),
        other := [(''tokens'', VInt (tokens f)), (''features'', VInt (hidden_size f)),
                   (''host_load_kind'', VStr ''kv_cache'')]\<rparr>"

definition transfer_latency :: "int \<Rightarrow> int" where
  "transfer_latency chunk_size = max (ceil_div chunk_size 4096) 4"

definition projection_aux :: "frame \<Rightarrow> string \<Rightarrow> nat \<Rightarrow> string \<times> py_value" where
  "projection_aux f proj_label chunk_idx =
     (''aux'', VDict [(''chunk_index'', VInt (int chunk_idx)), (''chunk_total'', VInt (num_chunks f)),
                      (''projection'', VStr proj_label)])"

definition projection_down_dict ::
  "frame \<Rightarrow> string \<Rightarrow> nat \<Rightarrow> nat \<Rightarrow> int \<Rightarrow> int \<Rightarrow> int \<Rightarrow> stage" where
  "projection_down_dict f proj_label layer_idx chunk_idx chunk_size rram_id chunk_digital =
     (stage_dict Transfer
        [Lit proj_label, Lit ''_transfer_to_rram_L'', Num (int layer_idx), Lit ''_C'', Num (int chunk_idx)])
       \<lparr>direction := Some Digital_to_rram, bytes := Some chunk_size,
        latency := Some (transfer_latency chunk_size),
        chiplet := Some rram_id, queue := Some chunk_digital,
        other := [projection_aux f proj_label chunk_idx]\<rparr>"

definition projection_linear_dict ::
  "frame \<Rightarrow> string \<Rightarrow> nat \<Rightarrow> nat \<Rightarrow> int \<Rightarrow> int \<Rightarrow> int \<Rightarrow> int \<Rightarrow> stage" where
  "projection_linear_dict f proj_label layer_idx chunk_idx approx_tok chunk_size w_bytes rram_id =
     (stage_dict Rram_linear
        [Lit proj_label, Lit ''_proj_rram_L'', Num (int layer_idx), Lit ''_C'', Num (int chunk_idx)])
       \<lparr>weight_bytes := Some (if chunk_idx = 0 then w_bytes else 0),
        chiplet := Some rram_id,
        other := [(''rows'', VInt approx_tok), (''cols'', VInt (hidden_size f)),
                   (''k'', VInt (hidden_size f)), (''activation_bytes'', VInt chunk_size),
                   (''pulse_count'', VInt (max (hidden_size f div 64) 16)),
                   (''adc_samples'', VInt (hidden_size f)), (''pre_cycles'', VInt 12),
                   (''post_cycles'', VInt 10), projection_aux f proj_label chunk_idx]\<rparr>"

definition projection_up_dict ::
  "frame \<Rightarrow> string \<Rightarrow> nat \<Rightarrow> nat \<Rightarrow> int \<Rightarrow> int \<Rightarrow> int \<Rightarrow> stage" where
  "projection_up_dict f proj_label layer_idx chunk_idx chunk_size rram_id chunk_digital =
     (stage_dict Transfer
        [Lit proj_label, Lit ''_transfer_to_digital_L'', Num (int layer_idx), Lit ''_C'', Num (int chunk_idx)])
       \<lparr>direction := Some Rram_to_digital, bytes := Some chunk_size,
        latency := Some (transfer_latency chunk_size),
        chiplet := Some chunk_digital, queue := Some rram_id,
        other := [projection_aux f proj_label chunk_idx]\<rparr>"

definition chunk_metadata :: "frame \<Rightarrow> string \<Rightarrow> nat \<Rightarrow> nat \<Rightarrow> int \<Rightarrow> string \<times> py_value" where
  "chunk_metadata f stage_label layer_idx chunk_idx chunk_tokens =
     (''metadata'', VDict [(''layer_index'', VInt (int layer_idx)), (''stage'', VStr stage_label),
                           (''chunk_index'', VInt (int chunk_idx)), (''chunk_tokens'', VInt chunk_tokens),
                           (''chunk_total'', VInt (int (length (chunk_plan f))))])"

definition attn_score_dict :: "frame \<Rightarrow> nat \<Rightarrow> nat \<Rightarrow> int \<Rightarrow> stage" where
  "attn_score_dict f layer_idx chunk_idx chunk_tokens =
     (stage_dict Attention [Lit ''attn_score_L'', Num (int layer_idx), Lit ''_C'', Num (int chunk_idx)])
       \<lparr>latency := Some (digital_latency_base f),
        chiplet := Some (chunk_digital_owner f layer_idx chunk_idx),
        queue := Some (chunk_digital_owner f layer_idx chunk_idx),
        weight_bytes := Some (chunk_tokens * hidden_size f * dtype_bytes f),
        other := [(''rows'', VInt chunk_tokens), (''cols'', VInt (hidden_size f)),
                   (''k'', VInt (hidden_size f)),
                   chunk_metadata f ''attention_score'' layer_idx chunk_idx chunk_tokens]\<rparr>"

definition softmax_dict :: "frame \<Rightarrow> nat \<Rightarrow> nat \<Rightarrow> int \<Rightarrow> stage" where
  "softmax_dict f layer_idx chunk_idx chunk_tokens =
     (stage_dict Softmax [Lit ''softmax_L'', Num (int layer_idx), Lit ''_C'', Num (int chunk_idx)])
       \<lparr>latency := Some (max (digital_latency_base f div 4) 8),
        chiplet := Some (chunk_digital_owner f layer_idx chunk_idx),
        queue := Some (chunk_digital_owner f layer_idx chunk_idx),
        other := [(''rows'', VInt chunk_tokens), (''cols'', VInt (hidden_size f)),
                   (''nonlinear_kind'', VStr ''softmax''),
                   chunk_metadata f ''attention_norm'' layer_idx chunk_idx chunk_tokens]\<rparr>"

definition attn_mix_dict :: "frame \<Rightarrow> nat \<Rightarrow> nat \<Rightarrow> int \<Rightarrow> stage" where
  "attn_mix_dict f layer_idx chunk_idx chunk_tokens =
     (stage_dict Attention [Lit ''attn_mix_L'', Num (int layer_idx), Lit ''_C'', Num (int chunk_idx)])
       \<lparr>latency := Some (digital_latency_base f),
        chiplet := Some (chunk_digital_owner f layer_idx chunk_idx),
        queue := Some (chunk_digital_owner f layer_idx chunk_idx),
        weight_bytes := Some (chunk_tokens * hidden_size f * dtype_bytes f),
        other := [(''rows'', VInt chunk_tokens), (''cols'', VInt (hidden_size f)),
                   (''k'', VInt (hidden_size f)),
                   chunk_metadata f ''attention_mix'' layer_idx chunk_idx chunk_tokens]\<rparr>"

definition post_attention_dict :: "frame \<Rightarrow> nat \<Rightarrow> nat \<Rightarrow> int \<Rightarrow> stage" where
  "post_attention_dict f layer_idx chunk_idx chunk_tokens =
     (stage_dict Postprocess [Lit ''post_attention_L'', Num (int layer_idx), Lit ''_C'', Num (int chunk_idx)])
       \<lparr>latency := Some (max (digital_latency_base f div 5) 10),
        chiplet := Some (chunk_digital_owner f layer_idx chunk_idx),
        queue := Some (chunk_digital_owner f layer_idx chunk_idx),
        other := [(''rows'', VInt chunk_tokens), (''cols'', VInt (hidden_size f)),
                   (''nonlinear_kind'', VStr ''residual''),
                   chunk_metadata f ''post_attention'' layer_idx chunk_idx chunk_tokens]\<rparr>"

definition moe_gating_dict :: "frame \<Rightarrow> nat \<Rightarrow> nat \<Rightarrow> int \<Rightarrow> stage" where
  "moe_gating_dict f layer_idx chunk_idx chunk_tokens =
     (stage_dict Moe_gating [Lit ''moe_gating_L'', Num (int layer_idx), Lit ''_C'', Num (int chunk_idx)])
       \<lparr>latency := Some (max (digital_latency_base f div 6) 6),
        chiplet := Some (chunk_digital_owner f layer_idx chunk_idx),
        queue := Some (chunk_digital_owner f layer_idx chunk_idx),
        other := [(''rows'', VInt chunk_tokens), (''cols'', VInt (experts_per_tok f)),
                   (''k'', VInt (num_experts f)),
                   (''aux'', VDict [(''experts_per_tok'', VInt (experts_per_tok f)),
                                    (''chunk_index'', VInt (int chunk_idx))]),
                   (''randomize_experts'', VBool True)]\<rparr>"

definition moe_aux :: "frame \<Rightarrow> nat \<Rightarrow> string \<times> py_value" where
  "moe_aux f chunk_idx =
     (''aux'', VDict [(''chunk_index'', VInt (int chunk_idx)), (''chunk_total'', VInt (num_chunks f)),
                      (''experts_per_tok'', VInt (experts_per_tok f))])"

definition moe_transfer_down_dict :: "frame \<Rightarrow> nat \<Rightarrow> nat \<Rightarrow> int \<Rightarrow> int \<Rightarrow> int \<Rightarrow> stage" where
  "moe_transfer_down_dict f layer_idx chunk_idx chunk_size target_rram chunk_digital =
     (stage_dict Transfer
        [Lit ''moe_transfer_to_rram_L'', Num (int layer_idx), Lit ''_C'', Num (int chunk_idx)])
       \<lparr>direction := Some Digital_to_rram, bytes := Some chunk_size,
        latency := Some (transfer_latency chunk_size),
        chiplet := Some target_rram, queue := Some chunk_digital,
        other := [moe_aux f chunk_idx]\<rparr>"

definition moe_linear_dict :: "frame \<Rightarrow> nat \<Rightarrow> nat \<Rightarrow> int \<Rightarrow> expert list \<Rightarrow> stage" where
  "moe_linear_dict f layer_idx chunk_idx chunk_size chunk_experts =
     (stage_dict Moe_linear [Lit ''moe_L'', Num (int layer_idx), Lit ''_C'', Num (int chunk_idx)])
       \<lparr>weight_bytes := Some (if chunk_idx = 0 then expert_weight_bytes f else 0),
        experts := Some chunk_experts,
        other := [(''parallel'', VBool True),
                   (''pulse_count'', VInt (max (intermediate_size f div 64) 16)),
                   (''adc_samples'', VInt (hidden_size f)), (''pre_cycles'', VInt 12),
                   (''post_cycles'', VInt 10), (''activation_bytes'', VInt chunk_size)]\<rparr>"

definition moe_transfer_up_dict :: "frame \<Rightarrow> nat \<Rightarrow> nat \<Rightarrow> int \<Rightarrow> int \<Rightarrow> int \<Rightarrow> stage" where
  "moe_transfer_up_dict f layer_idx chunk_idx chunk_size chunk_digital source_rram =
     (stage_dict Transfer
        [Lit ''moe_transfer_to_digital_L'', Num (int layer_idx), Lit ''_C'', Num (int chunk_idx)])
       \<lparr>direction := Some Rram_to_digital, bytes := Some chunk_size,
        latency := Some (transfer_latency chunk_size),
        chiplet := Some chunk_digital, queue := Some source_rram,
        other := [moe_aux f chunk_idx]\<rparr>"

definition moe_merge_dict :: "frame \<Rightarrow> nat \<Rightarrow> nat \<Rightarrow> int \<Rightarrow> stage" where
  "moe_merge_dict f layer_idx chunk_idx chunk_tokens =
     (stage_dict Moe_merge [Lit ''moe_merge_L'', Num (int layer_idx), Lit ''_C'', Num (int chunk_idx)])
       \<lparr>latency := Some (max (digital_latency_base f div 5) 10),
        other := [(''rows'', VInt chunk_tokens), (''cols'', VInt (hidden_size f))]\<rparr>"

definition postprocess_dict :: "frame \<Rightarrow> nat \<Rightarrow> nat \<Rightarrow> int \<Rightarrow> stage" where
  "postprocess_dict f layer_idx chunk_idx chunk_tokens =
     (stage_dict Postprocess [Lit ''postprocess_L'', Num (int layer_idx), Lit ''_C'', Num (int chunk_idx)])
       \<lparr>latency := Some (max (digital_latency_base f div 3) 12),
        chiplet := Some (chunk_digital_owner f layer_idx chunk_idx),
        queue := Some (chunk_digital_owner f layer_idx chunk_idx),
        other := [(''rows'', VInt chunk_tokens), (''cols'', VInt (hidden_size f)),
                   (''nonlinear_kind'', VStr ''residual''), (''host_store_kind'', VStr ''kv_cache'')]\<rparr>"

definition expert_template :: "frame \<Rightarrow> nat \<Rightarrow> nat \<Rightarrow> expert" where
  "expert_template f layer_idx expert_idx =
     \<lparr>e_name = [Lit ''expert_'', Num (int layer_idx), Lit ''_'', Num (int expert_idx)],
      e_chiplet = expert_chips f ! expert_idx,
      e_activation_bytes = activation_bytes_total f div max (experts_per_tok f) 1,
      e_weight_bytes = expert_weight_bytes f,
      e_execute_latency = max (trunc_div (intermediate_size f) 16) 32,
      e_chunk_index = None, e_metadata = None\<rparr>"

definition chunk_expert :: "frame \<Rightarrow> nat \<Rightarrow> int \<Rightarrow> expert \<Rightarrow> expert" where
  "chunk_expert f chunk_idx chunk_size e =
     e\<lparr>e_activation_bytes := chunk_size div max (experts_per_tok f) 1,
       e_weight_bytes := (if chunk_idx = 0 then e_weight_bytes e else 0),
       e_chunk_index := Some (int chunk_idx)\<rparr>"

text \<open>
  \<^verbatim>\<open>chunk_byte_plan[chunk_idx] if chunk_idx < len(chunk_byte_plan) else chunk_byte_plan[-1]\<close>:
  the second read raises IndexError on an empty list.
\<close>

definition chunk_size_at :: "frame \<Rightarrow> nat \<Rightarrow> py_error + int" where
  "chunk_size_at f chunk_idx =
     (if chunk_idx < length (chunk_byte_plan f) then Inr (chunk_byte_plan f ! chunk_idx)
      else if chunk_byte_plan f = [] then Inl IndexError
      else Inr (last (chunk_byte_plan f)))"

fun projection_step ::
  "frame \<Rightarrow> string \<Rightarrow> nat \<Rightarrow> int \<Rightarrow> int \<Rightarrow> nat \<times> int \<Rightarrow> stage list \<times> int \<Rightarrow>
   py_error + stage list \<times> int" where
  "projection_step f proj_label layer_idx w_bytes rram_id (chunk_idx, chunk_tokens) (sequence, last_idx) =
     (case chunk_size_at f chunk_idx of
        Inl e \<Rightarrow> Inl e
      | Inr chunk_size \<Rightarrow>
          let approx_tok = chunk_tokens;
              chunk_digital = chunk_digital_owner f layer_idx chunk_idx;
              (down, sequence1) =
                append_stage sequence
                  (projection_down_dict f proj_label layer_idx chunk_idx chunk_size rram_id chunk_digital)
                  (Some [last_idx]);
              (linear, sequence2) =
                append_stage sequence1
                  (projection_linear_dict f proj_label layer_idx chunk_idx approx_tok chunk_size w_bytes rram_id)
                  (Some [down]);
              (up, sequence3) =
                append_stage sequence2
                  (projection_up_dict f proj_label layer_idx chunk_idx chunk_size rram_id chunk_digital)
                  (Some [linear])
          in Inr (sequence3, up))"

text \<open>
  \<^verbatim>\<open>add_projection\<close>, a closure over \<^verbatim>\<open>sequence\<close> and the frame; its parameter
  \<^verbatim>\<open>digital_id\<close> is unused in the source as well.
\<close>

definition add_projection ::
  "frame \<Rightarrow> stage list \<Rightarrow> string \<Rightarrow> nat \<Rightarrow> int \<Rightarrow> int \<Rightarrow> int \<Rightarrow> int \<Rightarrow> py_error + int \<times> stage list" where
  "add_projection f sequence proj_label layer_idx depends_idx w_bytes digital_id rram_id =
     (case for_each (projection_step f proj_label layer_idx w_bytes rram_id)
             (py_enumerate (chunk_plan f)) (sequence, depends_idx) of
        Inl e \<Rightarrow> Inl e
      | Inr (sequence', last_idx) \<Rightarrow> Inr (last_idx, sequence'))"

fun moe_chunk_step ::
  "frame \<Rightarrow> nat \<Rightarrow> expert list \<Rightarrow> int list \<Rightarrow> nat \<times> int \<Rightarrow>
   stage list \<times> int option \<times> int list \<Rightarrow> py_error + stage list \<times> int option \<times> int list" where
  "moe_chunk_step f layer_idx experts_template gating_chunks (chunk_idx, chunk_tokens)
     (sequence, moe_prev, transfer_up_chunks) =
     (case chunk_size_at f chunk_idx of
        Inl e \<Rightarrow> Inl e
      | Inr chunk_size \<Rightarrow>
          if length (expert_chips f) = 0 then Inl ZeroDivisionError
          else
            let target_rram =
                  expert_chips f !
                    nat ((int chunk_idx * experts_per_tok f) mod int (length (expert_chips f)));
                down_deps =
                  (if chunk_idx < length gating_chunks then [gating_chunks ! chunk_idx] else []) @
                  (case moe_prev of None \<Rightarrow> [] | Some p \<Rightarrow> [p]);
                chunk_digital = chunk_digital_owner f layer_idx chunk_idx;
                (transfer_down, sequence1) =
                  append_stage sequence
                    (moe_transfer_down_dict f layer_idx chunk_idx chunk_size target_rram chunk_digital)
                    (if down_deps \<noteq> [] then Some down_deps else None);
                chunk_experts = map (chunk_expert f chunk_idx chunk_size) experts_template;
                (moe_stage, sequence2) =
                  append_stage sequence1
                    (moe_linear_dict f layer_idx chunk_idx chunk_size chunk_experts)
                    (Some [transfer_down]);
                (transfer_up, sequence3) =
                  append_stage sequence2
                    (moe_transfer_up_dict f layer_idx chunk_idx chunk_size chunk_digital
                       (expert_chips f !
                          nat ((int chunk_idx * experts_per_tok f) mod int (length (expert_chips f)))))
                    (Some [moe_stage])
            in Inr (sequence3, Some transfer_up, transfer_up_chunks @ [transfer_up]))"

text \<open>\<^verbatim>\<open>xs[-1]\<close>: the last element, IndexError on an empty list.\<close>

definition py_last :: "'a list \<Rightarrow> py_error + 'a" where
  "py_last xs = (if xs = [] then Inl IndexError else Inr (last xs))"

text \<open>One round of \<^verbatim>\<open>for layer_idx in range(layers)\<close>.\<close>

fun build_layer :: "frame \<Rightarrow> int \<Rightarrow> nat \<Rightarrow> stage list \<times> int \<Rightarrow> py_error + stage list \<times> int" where
  "build_layer f embed_stage layer_idx (sequence, prev_stage) =
     (let digital_id = int layer_idx mod digital_chiplets f;
          rram_base = (int layer_idx * 4) mod rram_chiplets f;
          q_rram = (rram_base + 0) mod rram_chiplets f;
          k_rram = (rram_base + 1) mod rram_chiplets f;
          v_rram = (rram_base + 2) mod rram_chiplets f
      in
      case add_projection f sequence ''q'' layer_idx
             (if layer_idx = 0 then embed_stage else prev_stage)
             (projection_weight_bytes f) digital_id q_rram of
        Inl e \<Rightarrow> Inl e
      | Inr (q_done, sequence1) \<Rightarrow>
      case add_projection f sequence1 ''k'' layer_idx q_done
             (projection_weight_bytes f) digital_id k_rram of
        Inl e \<Rightarrow> Inl e
      | Inr (k_done, sequence2) \<Rightarrow>
      case add_projection f sequence2 ''v'' layer_idx k_done
             (projection_weight_bytes f) digital_id v_rram of
        Inl e \<Rightarrow> Inl e
      | Inr (v_done, sequence3) \<Rightarrow>
      let (attn_score_chunks, sequence4) =
            append_chunked_stage sequence3 (attn_score_dict f layer_idx) (chunk_plan f)
              (DSeq [q_done, k_done]) None False;
          (post_attn_chunks, sequence5) =
            append_chunked_stage sequence4 (softmax_dict f layer_idx) (chunk_plan f)
              DNone (Some (map DInt attn_score_chunks)) False;
          mix_deps =
            map (\<lambda>idx. DSeq ((if idx < length post_attn_chunks then [post_attn_chunks ! idx] else [])
                               @ [v_done]))
              (py_range (int (length (chunk_plan f))));
          (attn_mix_chunks, sequence6) =
            append_chunked_stage sequence5 (attn_mix_dict f layer_idx) (chunk_plan f)
              DNone (Some mix_deps) False
      in
      case (if attn_mix_chunks \<noteq> [] then py_last attn_mix_chunks
            else if post_attn_chunks \<noteq> [] then py_last post_attn_chunks
            else py_last attn_score_chunks) of
        Inl e \<Rightarrow> Inl e
      | Inr attn_mix_tail \<Rightarrow>
      let o_rram = (rram_base + 3) mod rram_chiplets f in
      case add_projection f sequence6 ''o'' layer_idx attn_mix_tail
             (projection_weight_bytes f) digital_id o_rram of
        Inl e \<Rightarrow> Inl e
      | Inr (o_done, sequence7) \<Rightarrow>
      let (post_attention_chunks, sequence8) =
            append_chunked_stage sequence7 (post_attention_dict f layer_idx) (chunk_plan f)
              (DInt o_done) None False;
          (gating_chunks, sequence9) =
            append_chunked_stage sequence8 (moe_gating_dict f layer_idx) (chunk_plan f)
              DNone (Some (map DInt post_attention_chunks)) True;
          experts_template = map (expert_template f layer_idx) (py_range (num_experts f))
      in
      case for_each (moe_chunk_step f layer_idx experts_template gating_chunks)
             (py_enumerate (chunk_plan f)) (sequence9, None, []) of
        Inl e \<Rightarrow> Inl e
      | Inr (sequence10, moe_prev, transfer_up_chunks) \<Rightarrow>
      let (merge_chunks, sequence11) =
            append_chunked_stage sequence10 (moe_merge_dict f layer_idx) (chunk_plan f)
              DNone (Some (map DInt transfer_up_chunks)) True;
          (postprocess_chunks, sequence12) =
            append_chunked_stage sequence11 (postprocess_dict f layer_idx) (chunk_plan f)
              DNone (Some (map DInt merge_chunks)) True;
          prev_stage' =
            (if postprocess_chunks \<noteq> [] then last postprocess_chunks
             else if merge_chunks \<noteq> [] then last merge_chunks
             else if transfer_up_chunks \<noteq> [] then last transfer_up_chunks
             else (case moe_prev of Some p \<Rightarrow> p | None \<Rightarrow> o_done))
      in Inr (sequence12, prev_stage'))"

definition build_moe_sequence :: "moe_args \<Rightarrow> py_error + stage list" where
  "build_moe_sequence a =
     (case make_frame a of
        Inl e \<Rightarrow> Inl e
      | Inr f \<Rightarrow>
          let (embed_stage, sequence) = append_stage [] (embed_dict f) (Some [])
          in case for_each (build_layer f embed_stage) (py_range (layers f)) (sequence, embed_stage) of
               Inl e \<Rightarrow> Inl e
             | Inr (sequence', prev_stage) \<Rightarrow> Inr sequence')"

subsection \<open>\<^verbatim>\<open>build_moe_sequence\<close> (tools)\<close>

text \<open>
  The generator of \<^verbatim>\<open>tools/generate_chiplet_model.py\<close> takes the same arguments. It
  loads the input from the host, emits one attention, softmax and gating stage per layer,
  splits the expert phase into \<^verbatim>\<open>ceil(activation_bytes_total / chunk_bytes)\<close> chunks and
  stores the result to the host.
\<close>

record t_frame = moe_args +
  t_tokens :: int
  t_activation_bytes_total :: int
  t_expert_weight_bytes :: int
  t_digital_latency_base :: int
  t_host_dma_unit :: int
  t_host_load_latency :: int

definition t_make_frame :: "moe_args \<Rightarrow> py_error + t_frame" where
  "t_make_frame a =
     (let dtype_bytes' = max (dtype_bytes a) 1;
          chunk_bytes' = max (chunk_bytes a) dtype_bytes';
          tokens' = seq_length a * batch a;
          activation_bytes_total' = tokens' * hidden_size a * dtype_bytes';
          expert_weight_bytes' = hidden_size a * intermediate_size a * dtype_bytes'
      in case digital_latency_scale a (hidden_size a) of
           Inl e \<Rightarrow> Inl e
         | Inr scaled \<Rightarrow>
             let host_dma_unit' = max (chunk_bytes' div 4) 4096;
                 host_load_latency' = max (ceil_div (max activation_bytes_total' 1) host_dma_unit') 8
             in Inr \<lparr>layers = layers a, hidden_size = hidden_size a,
                     intermediate_size = intermediate_size a, num_experts = num_experts a,
                     experts_per_tok = experts_per_tok a, seq_length = seq_length a,
                     batch = batch a, dtype_bytes = dtype_bytes',
                     digital_chiplets = max (digital_chiplets a) 1,
                     rram_chiplets = max (rram_chiplets a) 1,
                     digital_latency_scale = digital_latency_scale a,
                     chunk_bytes = chunk_bytes', t_tokens = tokens',
                     t_activation_bytes_total = activation_bytes_total',
                     t_expert_weight_bytes = expert_weight_bytes',
                     t_digital_latency_base = max scaled 1,
                     t_host_dma_unit = host_dma_unit',
                     t_host_load_latency = host_load_latency'\<rparr>)"

definition t_host_metadata :: "t_frame \<Rightarrow> string \<Rightarrow> string \<Rightarrow> string \<times> py_value" where
  "t_host_metadata f tensor phase =
     (''metadata'', VDict [(''tensor'', VStr tensor), (''phase'', VStr phase),
                           (''batch'', VInt (batch f)), (''seq_length'', VInt (seq_length f)),
                           (''dtype_bytes'', VInt (dtype_bytes f))])"

definition t_host_load_dict :: "t_frame \<Rightarrow> stage" where
  "t_host_load_dict f =
     (stage_dict Transfer [Lit ''host_load_input''])
       \<lparr>direction := Some Host_to_digital, chiplet := Some 0, queue := Some 0,
        bytes := Some (t_activation_bytes_total f), latency := Some (t_host_load_latency f),
        other := [(''buffer_id'', VInt (hidden_size f)),
                  t_host_metadata f ''input_tokens'' ''prefetch'']\<rparr>"

definition t_embed_dict :: "t_frame \<Rightarrow> stage" where
  "t_embed_dict f =
     (stage_dict Token_prep [Lit ''embed''])
       \<lparr>latency := Some (max (t_digital_latency_base f div 8) 2),
        other := [(''tokens'', VInt (t_tokens f)), (''features'', VInt (hidden_size f))]\<rparr>"

definition t_layer_metadata :: "nat \<Rightarrow> string \<Rightarrow> int \<Rightarrow> string \<times> py_value" where
  "t_layer_metadata layer_idx stage_label digital_owner =
     (''metadata'', VDict [(''layer_index'', VInt (int layer_idx)), (''stage'', VStr stage_label),
                           (''digital_chiplet'', VInt digital_owner)])"

definition t_attn_dict :: "t_frame \<Rightarrow> nat \<Rightarrow> int \<Rightarrow> stage" where
  "t_attn_dict f layer_idx digital_owner =
     (stage_dict Attention [Lit ''attn_L'', Num (int layer_idx)])
       \<lparr>latency := Some (t_digital_latency_base f),
        chiplet := Some digital_owner, queue := Some digital_owner,
        other := [(''rows'', VInt (hidden_size f)), (''cols'', VInt (hidden_size f)),
                  (''k'', VInt (hidden_size f)), (''buffer_id'', VInt (hidden_size f)),
                  t_layer_metadata layer_idx ''attention'' digital_owner]\<rparr>"

definition t_softmax_dict :: "t_frame \<Rightarrow> nat \<Rightarrow> int \<Rightarrow> stage" where
  "t_softmax_dict f layer_idx digital_owner =
     (stage_dict Softmax [Lit ''softmax_L'', Num (int layer_idx)])
       \<lparr>latency := Some (max (t_digital_latency_base f div 4) 8),
        chiplet := Some digital_owner, queue := Some digital_owner,
        other := [(''rows'', VInt (t_tokens f)), (''cols'', VInt (hidden_size f)),
                  (''buffer_id'', VInt (hidden_size f)),
                  t_layer_metadata layer_idx ''attention_norm'' digital_owner]\<rparr>"

definition t_expert_template :: "t_frame \<Rightarrow> nat \<Rightarrow> nat \<Rightarrow> expert" where
  "t_expert_template f layer_idx expert_idx =
     (let chiplet_id = int expert_idx mod rram_chiplets f
      in \<lparr>e_name = [Lit ''expert_'', Num (int layer_idx), Lit ''_'', Num (int expert_idx)],
          e_chiplet = chiplet_id,
          e_activation_bytes = t_activation_bytes_total f div max (experts_per_tok f) 1,
          e_weight_bytes = t_expert_weight_bytes f,
          e_execute_latency = max (trunc_div (intermediate_size f) 16) 32,
          e_chunk_index = None,
          e_metadata = Some [(''layer_index'', VInt (int layer_idx)),
                             (''expert_index'', VInt (int expert_idx)),
                             (''rram_chiplet'', VInt chiplet_id)]\<rparr>)"

definition t_gating_dict :: "t_frame \<Rightarrow> nat \<Rightarrow> int \<Rightarrow> expert list \<Rightarrow> stage" where
  "t_gating_dict f layer_idx digital_owner experts_template =
     (let candidate_experts = map (\<lambda>i. VInt (int i)) (py_range (num_experts f));
          candidate_chiplets = map (\<lambda>entry. VInt (e_chiplet entry)) experts_template
      in (stage_dict Moe_gating [Lit ''moe_gating_L'', Num (int layer_idx)])
           \<lparr>latency := Some (max (t_digital_latency_base f div 6) 6),
            chiplet := Some digital_owner, queue := Some digital_owner,
            other := [(''rows'', VInt (t_tokens f)), (''cols'', VInt (num_experts f)),
                      (''buffer_id'', VInt (hidden_size f)),
                      (''metadata'',
                       VDict [(''layer_index'', VInt (int layer_idx)), (''stage'', VStr ''moe_gating''),
                              (''digital_chiplet'', VInt digital_owner),
                              (''top_k'', VInt (experts_per_tok f)),
                              (''candidate_experts'', VList candidate_experts),
                              (''candidate_chiplets'', VList candidate_chiplets),
                              (''tokens'', VInt (t_tokens f)), (''features'', VInt (hidden_size f))]),
                      (''aux'', VDict [(''experts_per_tok'', VInt (experts_per_tok f)),
                                       (''layer_index'', VInt (int layer_idx))])]\<rparr>)"

definition t_chunk_aux :: "nat \<Rightarrow> nat \<Rightarrow> int \<Rightarrow> string \<times> py_value" where
  "t_chunk_aux layer_idx chunk_idx chunks =
     (''aux'', VDict [(''chunk_index'', VInt (int chunk_idx)), (''chunk_total'', VInt chunks),
                      (''layer_index'', VInt (int layer_idx))])"

definition t_transfer_down_dict ::
  "t_frame \<Rightarrow> nat \<Rightarrow> nat \<Rightarrow> int \<Rightarrow> int \<Rightarrow> int \<Rightarrow> int \<Rightarrow> stage" where
  "t_transfer_down_dict f layer_idx chunk_idx chunks chunk_size rram_target digital_owner =
     (stage_dict Transfer [Lit ''transfer_to_rram_L'', Num (int layer_idx), Lit ''_C'', Num (int chunk_idx)])
       \<lparr>direction := Some Digital_to_rram, bytes := Some chunk_size,
        latency := Some (max (ceil_div chunk_size 4096) 4),
        chiplet := Some rram_target, queue := Some digital_owner,
        other := [(''buffer_id'', VInt (hidden_size f)),
                  (''metadata'',
                   VDict [(''layer_index'', VInt (int layer_idx)), (''chunk_index'', VInt (int chunk_idx)),
                          (''chunk_total'', VInt chunks), (''source_digital'', VInt digital_owner),
                          (''target_rram'', VInt rram_target), (''stage'', VStr ''digital_to_rram''),
                          (''chunk_bytes'', VInt chunk_size)]),
                  t_chunk_aux layer_idx chunk_idx chunks]\<rparr>"

definition t_chunk_expert :: "t_frame \<Rightarrow> nat \<Rightarrow> int \<Rightarrow> int \<Rightarrow> expert \<Rightarrow> expert" where
  "t_chunk_expert f chunk_idx chunks chunk_size e =
     e\<lparr>e_activation_bytes := chunk_size div max (experts_per_tok f) 1,
       e_weight_bytes := (if chunk_idx = 0 then e_weight_bytes e else 0),
       e_chunk_index := Some (int chunk_idx),
       e_metadata := Some ((case e_metadata e of None \<Rightarrow> [] | Some m \<Rightarrow> m) @
                           [(''chunk_index'', VInt (int chunk_idx)),
                            (''chunk_bytes'', VInt (chunk_size div max (experts_per_tok f) 1)),
                            (''chunk_total'', VInt chunks)])\<rparr>"

definition t_moe_linear_dict :: "t_frame \<Rightarrow> nat \<Rightarrow> nat \<Rightarrow> int \<Rightarrow> int \<Rightarrow> expert list \<Rightarrow> stage" where
  "t_moe_linear_dict f layer_idx chunk_idx chunks chunk_size chunk_experts =
     (stage_dict Moe_linear [Lit ''moe_L'', Num (int layer_idx), Lit ''_C'', Num (int chunk_idx)])
       \<lparr>weight_bytes := Some (if chunk_idx = 0 then t_expert_weight_bytes f else 0),
        experts := Some chunk_experts,
        other := [(''parallel'', VBool True),
                  (''pulse_count'', VInt (max (intermediate_size f div 64) 16)),
                  (''adc_samples'', VInt (hidden_size f)), (''pre_cycles'', VInt 12),
                  (''post_cycles'', VInt 10), (''activation_bytes'', VInt chunk_size),
                  (''metadata'',
                   VDict [(''layer_index'', VInt (int layer_idx)), (''chunk_index'', VInt (int chunk_idx)),
                          (''chunk_total'', VInt chunks), (''stage'', VStr ''moe_experts'')])]\<rparr>"

definition t_transfer_up_dict ::
  "t_frame \<Rightarrow> nat \<Rightarrow> nat \<Rightarrow> int \<Rightarrow> int \<Rightarrow> int \<Rightarrow> int \<Rightarrow> stage" where
  "t_transfer_up_dict f layer_idx chunk_idx chunks chunk_size rram_target digital_owner =
     (stage_dict Transfer [Lit ''transfer_to_digital_L'', Num (int layer_idx), Lit ''_C'', Num (int chunk_idx)])
       \<lparr>direction := Some Rram_to_digital, bytes := Some chunk_size,
        latency := Some (max (ceil_div chunk_size 4096) 4),
        chiplet := Some digital_owner, queue := Some rram_target,
        other := [(''buffer_id'', VInt (hidden_size f)),
                  (''metadata'',
                   VDict [(''layer_index'', VInt (int layer_idx)), (''chunk_index'', VInt (int chunk_idx)),
                          (''chunk_total'', VInt chunks), (''source_rram'', VInt rram_target),
                          (''target_digital'', VInt digital_owner), (''stage'', VStr ''rram_to_digital''),
                          (''chunk_bytes'', VInt chunk_size)]),
                  t_chunk_aux layer_idx chunk_idx chunks]\<rparr>"

definition t_merge_dict :: "t_frame \<Rightarrow> nat \<Rightarrow> int \<Rightarrow> stage" where
  "t_merge_dict f layer_idx digital_owner =
     (stage_dict Moe_merge [Lit ''moe_merge_L'', Num (int layer_idx)])
       \<lparr>latency := Some (max (t_digital_latency_base f div 5) 10),
        chiplet := Some digital_owner, queue := Some digital_owner,
        other := [(''rows'', VInt (t_tokens f)), (''cols'', VInt (hidden_size f)),
                  (''buffer_id'', VInt (hidden_size f)),
                  t_layer_metadata layer_idx ''moe_merge'' digital_owner]\<rparr>"

definition t_postprocess_dict :: "t_frame \<Rightarrow> nat \<Rightarrow> int \<Rightarrow> stage" where
  "t_postprocess_dict f layer_idx digital_owner =
     (stage_dict Postprocess [Lit ''postprocess_L'', Num (int layer_idx)])
       \<lparr>latency := Some (max (t_digital_latency_base f div 3) 12),
        chiplet := Some digital_owner, queue := Some digital_owner,
        other := [(''rows'', VInt (t_tokens f)), (''cols'', VInt (hidden_size f)),
                  (''buffer_id'', VInt (hidden_size f)),
                  t_layer_metadata layer_idx ''postprocess'' digital_owner]\<rparr>"

definition t_store_logits_dict :: "t_frame \<Rightarrow> stage" where
  "t_store_logits_dict f =
     (stage_dict Transfer [Lit ''store_logits''])
       \<lparr>direction := Some Digital_to_host, chiplet := Some 0, queue := Some 0,
        bytes := Some (t_activation_bytes_total f),
        latency := Some (max (t_host_load_latency f) 8),
        other := [(''buffer_id'', VInt (hidden_size f)),
                  t_host_metadata f ''decoder_output'' ''write_back'']\<rparr>"

text \<open>
  One round of \<^verbatim>\<open>for chunk_idx in range(num_chunks)\<close>. From the second round on
  \<^verbatim>\<open>last_transfer_up\<close> holds the index returned in the round before, so the list
  \<^verbatim>\<open>[last_transfer_up]\<close> never holds \<^verbatim>\<open>None\<close>.
\<close>

fun t_chunk_step ::
  "t_frame \<Rightarrow> nat \<Rightarrow> int \<Rightarrow> expert list \<Rightarrow> int \<Rightarrow> int \<Rightarrow> nat \<Rightarrow> stage list \<times> int option \<Rightarrow>
   stage list \<times> int option" where
  "t_chunk_step f layer_idx digital_owner experts_template gating chunks chunk_idx
     (sequence, last_transfer_up) =
     (let chunk_size =
            (if int chunk_idx < chunks - 1 then chunk_bytes f
             else t_activation_bytes_total f - chunk_bytes f * (chunks - 1));
          chunk_dep =
            (if chunk_idx = 0 then [gating]
             else (case last_transfer_up of Some u \<Rightarrow> [u] | None \<Rightarrow> []));
          rram_target = int chunk_idx mod rram_chiplets f;
          (transfer_down, sequence1) =
            append_stage sequence
              (t_transfer_down_dict f layer_idx chunk_idx chunks chunk_size rram_target digital_owner)
              (Some chunk_dep);
          chunk_experts = map (t_chunk_expert f chunk_idx chunks chunk_size) experts_template;
          (moe_stage, sequence2) =
            append_stage sequence1
              (t_moe_linear_dict f layer_idx chunk_idx chunks chunk_size chunk_experts)
              (Some [transfer_down]);
          (transfer_up, sequence3) =
            append_stage sequence2
              (t_transfer_up_dict f layer_idx chunk_idx chunks chunk_size rram_target digital_owner)
              (Some [moe_stage])
      in (sequence3, Some transfer_up))"

definition t_build_layer :: "t_frame \<Rightarrow> nat \<Rightarrow> stage list \<Rightarrow> stage list" where
  "t_build_layer f layer_idx sequence =
     (let digital_owner = int layer_idx mod digital_chiplets f;
          (att, sequence1) = append_stage sequence (t_attn_dict f layer_idx digital_owner) None;
          (post_attn, sequence2) =
            append_stage sequence1 (t_softmax_dict f layer_idx digital_owner) (Some [att]);
          experts_template = map (t_expert_template f layer_idx) (py_range (num_experts f));
          (gating, sequence3) =
            append_stage sequence2 (t_gating_dict f layer_idx digital_owner experts_template)
              (Some [post_attn]);
          chunks = max (ceil_div (t_activation_bytes_total f) (chunk_bytes f)) 1;
          (sequence4, last_transfer_up) =
            fold (t_chunk_step f layer_idx digital_owner experts_template gating chunks)
              (py_range chunks) (sequence3, None);
          (merge, sequence5) =
            append_stage sequence4 (t_merge_dict f layer_idx digital_owner)
              (Some (case last_transfer_up of Some u \<Rightarrow> [u] | None \<Rightarrow> [gating]));
          (post, sequence6) =
            append_stage sequence5 (t_postprocess_dict f layer_idx digital_owner) (Some [merge])
      in sequence6)"

definition t_build_moe_sequence :: "moe_args \<Rightarrow> py_error + stage list" where
  "t_build_moe_sequence a =
     (case t_make_frame a of
        Inl e \<Rightarrow> Inl e
      | Inr f \<Rightarrow>
          let (host_prefetch_idx, sequence1) = append_stage [] (t_host_load_dict f) (Some []);
              (embed, sequence2) = append_stage sequence1 (t_embed_dict f) (Some [host_prefetch_idx]);
              sequence3 = fold (t_build_layer f) (py_range (layers f)) sequence2
          in if sequence3 \<noteq> []
             then Inr (snd (append_stage sequence3 (t_store_logits_dict f)
                              (Some [int (length sequence3) - 1])))
             else Inr sequence3)"

subsection \<open>\<^verbatim>\<open>generate_chiplet_model\<close>\<close>

text \<open>
  The configuration is the dictionary \<^verbatim>\<open>json.load\<close> returns: a map from keys to JSON
  values. A JSON number is an integer or a float; Python's parser also accepts the
  literals \<^verbatim>\<open>Infinity\<close> and \<^verbatim>\<open>NaN\<close>, on which \<^verbatim>\<open>int()\<close> raises.
\<close>

datatype py_float = Float rat | Float_inf | Float_nan

datatype json =
  JNull | JBool bool | JInt int | JFloat py_float | JStr string | JArr "json list" |
  JObj "(string \<times> json) list"

type_synonym config = "string \<Rightarrow> json option"

text \<open>\<^verbatim>\<open>isinstance(v, (int, float))\<close>: \<^verbatim>\<open>bool\<close> is a subclass of \<^verbatim>\<open>int\<close>.\<close>

fun is_number :: "json \<Rightarrow> bool" where
  "is_number (JInt n) = True"
| "is_number (JFloat x) = True"
| "is_number (JBool b) = True"
| "is_number v = False"

text \<open>\<^verbatim>\<open>int(v)\<close> for a number: a float is truncated toward zero.\<close>

fun py_int :: "json \<Rightarrow> py_error + int" where
  "py_int (JInt n) = Inr n"
| "py_int (JBool b) = Inr (if b then 1 else 0)"
| "py_int (JFloat (Float q)) = Inr (if 0 \<le> q then \<lfloor>q\<rfloor> else \<lceil>q\<rceil>)"
| "py_int (JFloat Float_inf) = Inl OverflowError"
| "py_int (JFloat Float_nan) = Inl ValueError_nan"
| "py_int v = Inl TypeError"

fun int_from_config :: "config \<Rightarrow> string list \<Rightarrow> int option \<Rightarrow> py_error + int option" where
  "int_from_config data [] dflt = Inr dflt"
| "int_from_config data (key # keys) dflt =
     (case data key of
        None \<Rightarrow> int_from_config data keys dflt
      | Some v \<Rightarrow>
          if is_number v then (case py_int v of Inl e \<Rightarrow> Inl e | Inr n \<Rightarrow> Inr (Some n))
          else int_from_config data keys dflt)"

text \<open>\<^verbatim>\<open>str.lower\<close> on the ASCII letters, which is all the membership test below can see.\<close>

definition lower_char :: "char \<Rightarrow> char" where
  "lower_char c =
     (let n = (of_char c :: nat) in if 65 \<le> n \<and> n \<le> 90 then char_of (n + 32) else c)"

fun bool_from_config :: "config \<Rightarrow> string list \<Rightarrow> bool \<Rightarrow> bool" where
  "bool_from_config data [] dflt = dflt"
| "bool_from_config data (key # keys) dflt =
     (case data key of
        Some (JBool b) \<Rightarrow> b
      | Some (JStr s) \<Rightarrow> map lower_char s \<in> set [''1'', ''true'', ''yes'', ''y'', ''on'']
      | _ \<Rightarrow> bool_from_config data keys dflt)"

text \<open>
  The file system, as far as \<^verbatim>\<open>load_model_config\<close> sees it: the parsed content of the
  file at a path, \<open>None\<close> where no file exists.
\<close>

definition load_model_config :: "(string \<Rightarrow> config option) \<Rightarrow> string option \<Rightarrow> py_error + config" where
  "load_model_config fs path =
     (case path of
        None \<Rightarrow> Inr (\<lambda>key. None)
      | Some p \<Rightarrow> (case fs p of None \<Rightarrow> Inl FileNotFoundError | Some data \<Rightarrow> Inr data))"

text \<open>The namespace \<^verbatim>\<open>argparse\<close> returns; an option that was not given is \<open>None\<close>.\<close>

record cli_args =
  args_config :: "string option"
  args_name :: "string option"
  args_seq_length :: int
  args_batch :: int
  args_dtype_bytes :: int
  args_layers :: "int option"
  args_hidden_size :: "int option"
  args_intermediate_size :: "int option"
  args_num_experts :: "int option"
  args_experts_per_tok :: "int option"
  args_digital_chiplets :: int
  args_rram_chiplets :: int
  args_digital_latency_scale :: "int \<Rightarrow> py_error + int"
  args_chunk_bytes :: int

text \<open>
  \<^verbatim>\<open>x or y\<close> on optional integers: \<open>y\<close> is only looked at when \<open>x\<close> is \<^verbatim>\<open>None\<close> or 0.
\<close>

definition or_else :: "int option \<Rightarrow> int option \<Rightarrow> int option" where
  "or_else x y = (case x of None \<Rightarrow> y | Some n \<Rightarrow> (if n \<noteq> 0 then Some n else y))"

definition or_config :: "int option \<Rightarrow> py_error + int option \<Rightarrow> py_error + int option" where
  "or_config x y = (case x of None \<Rightarrow> y | Some n \<Rightarrow> (if n \<noteq> 0 then Inr (Some n) else y))"

text \<open>
  The values lines 558 to 591 resolve. A value that is still \<^verbatim>\<open>None\<close> where the source
  computes with it raises TypeError; with the integer defaults of the source this does not
  happen.
\<close>

record resolved =
  r_hidden_size :: int
  r_intermediate_size :: int
  r_num_layers :: int
  r_num_experts :: int
  r_experts_per_tok :: int

definition need_int :: "py_error + int option \<Rightarrow> py_error + int" where
  "need_int r = (case r of Inl e \<Rightarrow> Inl e | Inr None \<Rightarrow> Inl TypeError | Inr (Some n) \<Rightarrow> Inr n)"

definition resolve_shape :: "cli_args \<Rightarrow> config \<Rightarrow> py_error + resolved" where
  "resolve_shape args config_data =
     (case need_int (or_config (args_hidden_size args)
                       (int_from_config config_data [''hidden_size'', ''n_embd'', ''dim''] (Some 4096))) of
        Inl e \<Rightarrow> Inl e
      | Inr hidden \<Rightarrow>
     (case need_int (or_config (args_intermediate_size args)
                       (int_from_config config_data
                          [''moe_intermediate_size'', ''intermediate_size'', ''ffn_hidden_size'']
                          (Some (hidden * 4)))) of
        Inl e \<Rightarrow> Inl e
      | Inr intermediate \<Rightarrow>
     (case need_int (or_config (args_layers args)
                       (int_from_config config_data
                          [''num_hidden_layers'', ''n_layer'', ''num_layers''] (Some 32))) of
        Inl e \<Rightarrow> Inl e
      | Inr num_layers \<Rightarrow>
     (case int_from_config config_data [''num_local_experts''] None of
        Inl e \<Rightarrow> Inl e
      | Inr config_local_experts \<Rightarrow>
     (case int_from_config config_data [''moe_num_experts'', ''num_experts''] None of
        Inl e \<Rightarrow> Inl e
      | Inr config_moe_experts \<Rightarrow>
     (case need_int (Inr (or_else (args_num_experts args)
                       (or_else config_local_experts (or_else config_moe_experts (Some 16))))) of
        Inl e \<Rightarrow> Inl e
      | Inr experts0 \<Rightarrow>
     (case need_int (or_config (args_experts_per_tok args)
                       (int_from_config config_data [''moe_topk'', ''moe_top_k''] (Some 2))) of
        Inl e \<Rightarrow> Inl e
      | Inr per_tok \<Rightarrow>
          let use_moe = bool_from_config config_data [''use_moe''] (experts0 > 0)
          in if \<not> use_moe \<and> experts0 \<le> 0 then Inl ValueError_moe_disabled
             else Inr \<lparr>r_hidden_size = hidden, r_intermediate_size = intermediate,
                       r_num_layers = num_layers,
                       r_num_experts = (if experts0 \<le> 0 then 1 else experts0),
                       r_experts_per_tok = per_tok\<rparr>)))))))"

text \<open>Truth of a JSON value, and \<^verbatim>\<open>v[0]\<close>.\<close>

fun py_truthy :: "json \<Rightarrow> bool" where
  "py_truthy JNull = False"
| "py_truthy (JBool b) = b"
| "py_truthy (JInt n) = (n \<noteq> 0)"
| "py_truthy (JFloat (Float q)) = (q \<noteq> 0)"
| "py_truthy (JFloat x) = True"
| "py_truthy (JStr s) = (s \<noteq> [])"
| "py_truthy (JArr vs) = (vs \<noteq> [])"
| "py_truthy (JObj kvs) = (kvs \<noteq> [])"

fun py_first :: "json \<Rightarrow> py_error + json" where
  "py_first (JArr []) = Inl IndexError"
| "py_first (JArr (v # vs)) = Inr v"
| "py_first (JStr []) = Inl IndexError"
| "py_first (JStr (c # cs)) = Inr (JStr [c])"
| "py_first (JObj kvs) = Inl KeyError"
| "py_first v = Inl TypeError"

definition resolve_name :: "cli_args \<Rightarrow> config \<Rightarrow> py_error + json" where
  "resolve_name args config_data =
     (case args_name args of
        Some s \<Rightarrow> if s \<noteq> [] then Inr (JStr s) else
          (case config_data ''model_type'' of
             Some v \<Rightarrow> if py_truthy v then Inr v
               else py_first (case config_data ''architectures'' of None \<Rightarrow> JArr [JStr ''moe_model''] | Some x \<Rightarrow> x)
           | None \<Rightarrow> py_first (case config_data ''architectures'' of None \<Rightarrow> JArr [JStr ''moe_model''] | Some x \<Rightarrow> x))
      | None \<Rightarrow>
          (case config_data ''model_type'' of
             Some v \<Rightarrow> if py_truthy v then Inr v
               else py_first (case config_data ''architectures'' of None \<Rightarrow> JArr [JStr ''moe_model''] | Some x \<Rightarrow> x)
           | None \<Rightarrow> py_first (case config_data ''architectures'' of None \<Rightarrow> JArr [JStr ''moe_model''] | Some x \<Rightarrow> x)))"

record document =
  doc_name :: json
  doc_sequence :: "stage list"
  doc_metadata :: "(string \<times> py_value) list"

text \<open>
  \<^verbatim>\<open>generate_chiplet_model\<close> is the same text in both files; each calls the
  \<^verbatim>\<open>build_moe_sequence\<close> of its own file, which is the first argument here.
\<close>

definition generate_with ::
  "(moe_args \<Rightarrow> py_error + stage list) \<Rightarrow> (string \<Rightarrow> config option) \<Rightarrow> cli_args \<Rightarrow>
   py_error + document" where
  "generate_with build fs args =
     (case load_model_config fs (args_config args) of
        Inl e \<Rightarrow> Inl e
      | Inr config_data \<Rightarrow>
     (case resolve_shape args config_data of
        Inl e \<Rightarrow> Inl e
      | Inr r \<Rightarrow>
     (case build \<lparr>layers = r_num_layers r, hidden_size = r_hidden_size r,
                  intermediate_size = r_intermediate_size r, num_experts = r_num_experts r,
                  experts_per_tok = r_experts_per_tok r, seq_length = args_seq_length args,
                  batch = args_batch args, dtype_bytes = args_dtype_bytes args,
                  digital_chiplets = args_digital_chiplets args,
                  rram_chiplets = args_rram_chiplets args,
                  digital_latency_scale = args_digital_latency_scale args,
                  chunk_bytes = args_chunk_bytes args\<rparr> of
        Inl e \<Rightarrow> Inl e
      | Inr sequence \<Rightarrow>
     (case resolve_name args config_data of
        Inl e \<Rightarrow> Inl e
      | Inr n \<Rightarrow>
          Inr \<lparr>doc_name = n, doc_sequence = sequence,
               doc_metadata =
                 [(''hidden_size'', VInt (r_hidden_size r)),
                  (''intermediate_size'', VInt (r_intermediate_size r)),
                  (''layers'', VInt (r_num_layers r)),
                  (''num_experts'', VInt (r_num_experts r)),
                  (''experts_per_tok'', VInt (r_experts_per_tok r)),
                  (''seq_length'', VInt (args_seq_length args)),
                  (''batch'', VInt (args_batch args)),
                  (''dtype_bytes'', VInt (args_dtype_bytes args)),
                  (''digital_chiplets'', VInt (args_digital_chiplets args)),
                  (''rram_chiplets'', VInt (args_rram_chiplets args)),
                  (''chunk_bytes'', VInt (args_chunk_bytes args))]\<rparr>))))"

definition generate_chiplet_model :: "(string \<Rightarrow> config option) \<Rightarrow> cli_args \<Rightarrow> py_error + document" where
  "generate_chiplet_model = generate_with build_moe_sequence"

definition t_generate_chiplet_model :: "(string \<Rightarrow> config option) \<Rightarrow> cli_args \<Rightarrow> py_error + document" where
  "t_generate_chiplet_model = generate_with t_build_moe_sequence"

section \<open>Properties\<close>

subsection \<open>The chunk planner\<close>

lemma plan_loop_stop: "\<not> (0 < r \<and> 1 \<le> t) \<Longrightarrow> plan_loop t r p = p"
  by (subst plan_loop.simps) auto

lemma plan_loop_step:
  "0 < r \<Longrightarrow> 1 \<le> t \<Longrightarrow> plan_loop t r p = plan_loop t (r - min t r) (p @ [min t r])"
  by (subst plan_loop.simps) (simp add: Let_def)

lemma plan_loop_append: "plan_loop t r p = p @ plan_loop t r []"
proof (induction "nat r" arbitrary: r p rule: less_induct)
  case less
  show ?case
  proof (cases "0 < r \<and> 1 \<le> t")
    case True
    let ?k = "min t r"
    have lt: "nat (r - ?k) < nat r" using True by auto
    have "plan_loop t r p = plan_loop t (r - ?k) (p @ [?k])"
      using True by (simp add: plan_loop_step)
    also have "\<dots> = (p @ [?k]) @ plan_loop t (r - ?k) []"
      using less[OF lt] by blast
    also have "\<dots> = p @ plan_loop t (r - ?k) ([] @ [?k])"
      using less[OF lt, of "[] @ [?k]"] by simp
    also have "\<dots> = p @ plan_loop t r []"
      using True by (simp add: plan_loop_step[of r t "[]"])
    finally show ?thesis .
  next
    case False
    then show ?thesis by (simp add: plan_loop_stop)
  qed
qed

lemma plan_loop_Cons:
  "0 < r \<Longrightarrow> 1 \<le> t \<Longrightarrow> plan_loop t r [] = min t r # plan_loop t (r - min t r) []"
  using plan_loop_step[of r t "[]"] plan_loop_append[of t "r - min t r" "[min t r]"] by simp

lemma plan_loop_sum: "1 \<le> t \<Longrightarrow> 0 \<le> r \<Longrightarrow> sum_list (plan_loop t r []) = r"
proof (induction "nat r" arbitrary: r rule: less_induct)
  case less
  show ?case
  proof (cases "0 < r")
    case True
    have lt: "nat (r - min t r) < nat r" using True less.prems by auto
    have "sum_list (plan_loop t (r - min t r) []) = r - min t r"
      using less.hyps[OF lt] less.prems True by simp
    then show ?thesis using True less.prems by (simp add: plan_loop_Cons)
  next
    case False
    then show ?thesis using less.prems by (simp add: plan_loop_stop)
  qed
qed

lemma plan_loop_entries: "x \<in> set (plan_loop t r []) \<Longrightarrow> 1 \<le> x \<and> x \<le> t"
proof (induction "nat r" arbitrary: r rule: less_induct)
  case less
  show ?case
  proof (cases "0 < r \<and> 1 \<le> t")
    case True
    have lt: "nat (r - min t r) < nat r" using True by auto
    have "x = min t r \<or> x \<in> set (plan_loop t (r - min t r) [])"
      using less.prems True by (simp add: plan_loop_Cons)
    then show ?thesis using less.hyps[OF lt] True by auto
  next
    case False
    then show ?thesis using less.prems by (simp add: plan_loop_stop)
  qed
qed

lemma plan_loop_nonempty: "0 < r \<Longrightarrow> 1 \<le> t \<Longrightarrow> plan_loop t r [] \<noteq> []"
  by (simp add: plan_loop_Cons)

lemma plan_loop_closed:
  "1 \<le> t \<Longrightarrow> 0 \<le> r \<Longrightarrow>
   plan_loop t r [] = replicate (nat (r div t)) t @ (if r mod t = 0 then [] else [r mod t])"
proof (induction "nat r" arbitrary: r rule: less_induct)
  case less
  show ?case
  proof (cases "0 < r")
    case True
    note pos = True
    have lt: "nat (r - min t r) < nat r" using True less.prems by auto
    have ih: "plan_loop t (r - min t r) [] =
        replicate (nat ((r - min t r) div t)) t @
          (if (r - min t r) mod t = 0 then [] else [(r - min t r) mod t])"
      using less.hyps[OF lt] less.prems True by simp
    show ?thesis
    proof (cases "t \<le> r")
      case True
      then have m: "min t r = t" by simp
      have tne: "t \<noteq> 0" using less.prems by simp
      have d: "(r - t) div t = r div t - 1"
        using div_add_self2[OF tne, of "r - t"] by simp
      have e: "(r - t) mod t = r mod t"
        using mod_add_self2[of "r - t" t] by simp
      have "1 \<le> r div t" using True less.prems
        by (metis div_self tne zdiv_mono1 zero_less_one_class.zero_less_one order_less_le_trans less_le_not_le linorder_not_le)
      then have "nat (r div t) = Suc (nat (r div t - 1))" by simp
      then show ?thesis using ih m d e pos less.prems by (simp add: plan_loop_Cons)
    next
      case False
      then have m: "min t r = r" by simp
      have "r div t = 0" "r mod t = r" using False pos by simp_all
      then show ?thesis using m pos less.prems by (simp add: plan_loop_Cons plan_loop_stop)
    qed
  next
    case False
    then have "r = 0" using less.prems by simp
    then show ?thesis by (simp add: plan_loop_stop)
  qed
qed

lemma build_chunk_plan_pos:
  assumes "0 < toks" "0 < dtype" "0 \<le> hidden"
  shows "\<exists>plan. build_chunk_plan toks hidden dtype budget = Inr plan \<and>
           plan = plan_loop (max (budget div max (hidden * dtype) dtype) 1) toks [] \<and>
           plan \<noteq> [] \<and> (\<forall>x\<in>set plan. 1 \<le> x) \<and> sum_list plan = toks"
proof -
  let ?ptb = "max (hidden * dtype) dtype"
  let ?t = "max (budget div ?ptb) 1"
  have p: "0 < ?ptb" using assms by simp
  have ne: "plan_loop ?t toks [] \<noteq> []" using assms by (intro plan_loop_nonempty) simp_all
  have eq: "build_chunk_plan toks hidden dtype budget = Inr (plan_loop ?t toks [])"
    using assms p ne unfolding build_chunk_plan_def Let_def by simp
  have s: "sum_list (plan_loop ?t toks []) = toks"
    using assms by (intro plan_loop_sum) simp_all
  have e: "\<forall>x\<in>set (plan_loop ?t toks []). 1 \<le> x"
    using plan_loop_entries by blast
  show ?thesis using eq ne s e by blast
qed

text \<open>
  Claim C2. For positive \<open>tokens\<close>, \<open>hidden_size\<close>, \<open>dtype_bytes\<close> and \<open>chunk_bytes\<close>
  (here \<open>toks\<close>, \<open>hidden\<close>, \<open>dtype\<close>, \<open>budget\<close>) the planner returns a non-empty
  plan whose entries are at least 1 and sum to the token count; the plan is \<open>toks div t\<close>
  chunks of \<open>t = max (budget div (hidden * dtype)) 1\<close> tokens, followed by one smaller
  chunk when \<open>t\<close> does not divide the token count. For a token count \<open>\<le> 0\<close> the plan
  is empty. The plan is a function of the four arguments: equal arguments give equal plans.
\<close>

theorem build_chunk_plan_covers:
  "(0 < toks \<and> 0 < hidden \<and> 0 < dtype \<and> 0 < budget \<longrightarrow>
      (\<exists>plan. build_chunk_plan toks hidden dtype budget = Inr plan \<and>
         plan \<noteq> [] \<and> (\<forall>x\<in>set plan. 1 \<le> x) \<and> sum_list plan = toks \<and>
         plan = (let t = max (budget div (hidden * dtype)) 1
                 in replicate (nat (toks div t)) t @
                    (if toks mod t = 0 then [] else [toks mod t])))) \<and>
   (toks \<le> 0 \<longrightarrow> build_chunk_plan toks hidden dtype budget = Inr []) \<and>
   (\<forall>toks' hidden' dtype' budget'.
      toks' = toks \<and> hidden' = hidden \<and> dtype' = dtype \<and>
      budget' = budget \<longrightarrow>
      build_chunk_plan toks' hidden' dtype' budget' =
      build_chunk_plan toks hidden dtype budget)"
proof (intro conjI impI allI)
  assume a: "0 < toks \<and> 0 < hidden \<and> 0 < dtype \<and> 0 < budget"
  let ?t = "max (budget div (hidden * dtype)) 1"
  have "1 * dtype \<le> hidden * dtype"
    using a by (intro mult_right_mono) simp_all
  then have m: "max (hidden * dtype) dtype = hidden * dtype"
    by simp
  have h: "0 < toks" "0 < dtype" "0 \<le> hidden" using a by simp_all
  obtain plan where
    p: "build_chunk_plan toks hidden dtype budget = Inr plan"
       "plan = plan_loop (max (budget div max (hidden * dtype) dtype) 1) toks []"
       "plan \<noteq> []" "\<forall>x\<in>set plan. 1 \<le> x" "sum_list plan = toks"
    using build_chunk_plan_pos[OF h, of budget] by blast
  have q: "plan = plan_loop ?t toks []"
    using p(2) by (simp only: m)
  have t1: "1 \<le> ?t" by simp
  have t0: "0 \<le> toks" using a by simp
  have c: "plan = (let t = max (budget div (hidden * dtype)) 1
                 in replicate (nat (toks div t)) t @
                    (if toks mod t = 0 then [] else [toks mod t]))"
    unfolding Let_def q by (rule plan_loop_closed[OF t1 t0])
  show "\<exists>plan. build_chunk_plan toks hidden dtype budget = Inr plan \<and>
         plan \<noteq> [] \<and> (\<forall>x\<in>set plan. 1 \<le> x) \<and> sum_list plan = toks \<and>
         plan = (let t = max (budget div (hidden * dtype)) 1
                 in replicate (nat (toks div t)) t @
                    (if toks mod t = 0 then [] else [toks mod t]))"
    using p(1,3,4,5) c by blast
next
  assume "toks \<le> 0"
  then show "build_chunk_plan toks hidden dtype budget = Inr []"
    by (simp add: build_chunk_plan_def)
next
  fix toks' hidden' dtype' budget'
  assume "toks' = toks \<and> hidden' = hidden \<and> dtype' = dtype \<and>
      budget' = budget"
  then show "build_chunk_plan toks' hidden' dtype' budget' =
      build_chunk_plan toks hidden dtype budget"
    by simp
qed

lemma plan_witness_budget: "max ((24::int) div (4 * 2)) 1 = 3" by simp
lemma plan_witness_replicate: "replicate (nat ((10::int) div 3)) (3::int) = [3,3,3]" by (simp add: numeral_3_eq_3)
lemma plan_witness_closed: "(let t = max ((24::int) div (4 * 2)) 1
                 in replicate (nat (10 div t)) t @
                    (if 10 mod t = 0 then [] else [10 mod t])) = [3,3,3,1]"
  unfolding Let_def plan_witness_budget plan_witness_replicate by simp

theorem build_chunk_plan_covers_witness:
  "build_chunk_plan 10 4 2 24 = Inr [3, 3, 3, 1] \<and> sum_list [3, 3, 3, 1] = (10::int) \<and>
   build_chunk_plan 0 4 2 24 = Inr []"
proof -
  have "\<exists>plan. build_chunk_plan 10 4 2 24 = Inr plan \<and>
         plan \<noteq> [] \<and> (\<forall>x\<in>set plan. 1 \<le> x) \<and> sum_list plan = 10 \<and>
         plan = (let t = max (24 div (4 * 2)) 1
                 in replicate (nat (10 div t)) t @
                    (if 10 mod t = 0 then [] else [10 mod t]))"
    using conjunct1[OF build_chunk_plan_covers[of 10 4 2 24]] by simp
  then have a: "build_chunk_plan 10 4 2 24 = Inr [3, 3, 3, 1]"
    unfolding plan_witness_closed by blast
  have b: "build_chunk_plan 0 4 2 24 = Inr []"
    using conjunct1[OF conjunct2[OF build_chunk_plan_covers[of 0 4 2 24]]] by simp
  show ?thesis using a b by simp
qed

subsection \<open>Loops and \<^verbatim>\<open>append_stage\<close>\<close>

lemma append_stage_eq:
  "append_stage sequence st depends = (int (length sequence), sequence @ [set_deps sequence st depends])"
  by (simp add: append_stage_def Let_def)

lemma for_each_invariant:
  assumes "for_each body xs s = Inr s'" and "P s"
    and "\<And>x s s'. x \<in> set xs \<Longrightarrow> P s \<Longrightarrow> body x s = Inr s' \<Longrightarrow> P s'"
  shows "P s'"
  using assms
proof (induction xs arbitrary: s)
  case Nil
  then show ?case by simp
next
  case (Cons x xs)
  from Cons.prems(1) obtain s1 where b: "body x s = Inr s1" and r: "for_each body xs s1 = Inr s'"
    by (auto split: sum.splits)
  have p1: "P s1" using Cons.prems(3)[of x s s1] Cons.prems(2) b by simp
  show ?case
  proof (rule Cons.IH[OF r p1])
    fix y t t' assume "y \<in> set xs" "P t" "body y t = Inr t'"
    then show "P t'" using Cons.prems(3)[of y t t'] by simp
  qed
qed

lemma fold_invariant:
  assumes "P s" and "\<And>x s. x \<in> set xs \<Longrightarrow> P s \<Longrightarrow> P (f x s)"
  shows "P (fold f xs s)"
  using assms by (induction xs arbitrary: s) simp_all

definition valid_idx :: "stage list \<Rightarrow> int \<Rightarrow> bool" where
  "valid_idx sequence i \<longleftrightarrow> 0 \<le> i \<and> i < int (length sequence)"

definition deps_in_order :: "stage list \<Rightarrow> bool" where
  "deps_in_order sequence \<longleftrightarrow>
     (\<forall>i<length sequence. \<forall>ds. deps (sequence ! i) = Some ds \<longrightarrow>
        (\<forall>d\<in>set ds. 0 \<le> d \<and> d < int i))"

lemma deps_in_order_Nil: "deps_in_order []"
  by (simp add: deps_in_order_def)

lemma deps_in_order_snoc:
  "deps_in_order (sequence @ [st]) \<longleftrightarrow>
     deps_in_order sequence \<and>
     (\<forall>ds. deps st = Some ds \<longrightarrow> (\<forall>d\<in>set ds. valid_idx sequence d))"
  by (auto simp: deps_in_order_def valid_idx_def nth_append less_Suc_eq)

lemma valid_idx_snoc: "valid_idx sequence i \<Longrightarrow> valid_idx (sequence @ [st]) i"
  by (simp add: valid_idx_def)

lemma valid_idx_length: "valid_idx (sequence @ [st]) (int (length sequence))"
  by (simp add: valid_idx_def)

lemma valid_idx_mono:
  "valid_idx sequence i \<Longrightarrow> length sequence \<le> length sequence' \<Longrightarrow> valid_idx sequence' i"
  by (simp add: valid_idx_def)

lemma deps_set_deps:
  "deps st = None \<Longrightarrow>
   deps (set_deps sequence st depends) =
     (case depends of None \<Rightarrow> (if sequence \<noteq> [] then Some [int (length sequence) - 1] else None)
      | Some ds \<Rightarrow> Some ds)"
  by (simp add: set_deps_def split: option.splits)

lemma deps_in_order_append_stage:
  assumes "deps_in_order sequence" "deps st = None"
    and "\<And>ds. depends = Some ds \<Longrightarrow> \<forall>d\<in>set ds. valid_idx sequence d"
  shows "deps_in_order (sequence @ [set_deps sequence st depends])"
  using assms
  by (cases depends) (auto simp: deps_in_order_snoc deps_set_deps valid_idx_def)

subsection \<open>Dependencies of appended stages\<close>

definition below :: "nat \<Rightarrow> int list \<Rightarrow> bool" where
  "below n ds \<longleftrightarrow> (\<forall>d\<in>set ds. 0 \<le> d \<and> d < int n)"

lemma below_simps [simp]:
  "below n []" "below n (d # ds) \<longleftrightarrow> 0 \<le> d \<and> d < int n \<and> below n ds"
  "below n (xs @ ys) \<longleftrightarrow> below n xs \<and> below n ys"
  by (auto simp: below_def)

lemma below_mono: "below n ds \<Longrightarrow> n \<le> m \<Longrightarrow> below m ds"
  by (auto simp: below_def)

lemma deps_in_order_snoc_set_deps:
  assumes "deps st = None"
  shows "deps_in_order (sequence @ [set_deps sequence st depends]) \<longleftrightarrow>
     deps_in_order sequence \<and> (\<forall>ds. depends = Some ds \<longrightarrow> below (length sequence) ds)"
  using assms
  by (cases depends) (auto simp: deps_in_order_snoc deps_set_deps valid_idx_def below_def)

fun deps_from :: "nat \<Rightarrow> stage list \<Rightarrow> bool" where
  "deps_from n [] \<longleftrightarrow> True"
| "deps_from n (st # sts) \<longleftrightarrow>
     (\<forall>ds. deps st = Some ds \<longrightarrow> below n ds) \<and> deps_from (Suc n) sts"

lemma deps_in_order_append:
  "deps_in_order (xs @ ys) \<longleftrightarrow> deps_in_order xs \<and> deps_from (length xs) ys"
proof (induction ys arbitrary: xs)
  case Nil
  then show ?case by simp
next
  case (Cons st ys)
  have "deps_in_order (xs @ st # ys) \<longleftrightarrow> deps_in_order ((xs @ [st]) @ ys)" by simp
  also have "\<dots> \<longleftrightarrow> deps_in_order (xs @ [st]) \<and> deps_from (Suc (length xs)) ys"
    using Cons.IH[of "xs @ [st]"] by simp
  finally show ?case by (auto simp: deps_in_order_snoc below_def valid_idx_def)
qed

lemma set_deps_Some [simp]: "set_deps sequence st (Some ds) = st\<lparr>deps := Some ds\<rparr>"
  by (simp add: set_deps_def)

lemma set_deps_None:
  "set_deps sequence st None =
     (if sequence \<noteq> [] then st\<lparr>deps := Some [int (length sequence) - 1]\<rparr> else st)"
  by (simp add: set_deps_def)

definition chunked_inv :: "nat \<Rightarrow> stage list \<times> int list \<times> int option \<Rightarrow> bool" where
  "chunked_inv n0 s \<longleftrightarrow>
     (case s of (sequence, chunk_ids, prev_idx) \<Rightarrow>
        deps_in_order sequence \<and> n0 \<le> length sequence \<and> below (length sequence) chunk_ids \<and>
        (\<forall>p. prev_idx = Some p \<longrightarrow> below (length sequence) [p]))"

lemma chunked_stage_step_inv:
  assumes inv: "chunked_inv n0 s"
    and base: "below n0 base_list"
    and pcd: "\<And>pcd x. per_chunk_dep = Some pcd \<Longrightarrow> x \<in> set pcd \<Longrightarrow> below n0 (normalize_deps x)"
    and sb: "\<And>i t. deps (stage_builder i t) = None"
  shows "chunked_inv n0 (chunked_stage_step stage_builder base_list per_chunk_dep enforce_sequential x s)"
proof -
  obtain idx token_count where x: "x = (idx, token_count)" by (cases x)
  obtain sequence chunk_ids prev_idx where s: "s = (sequence, chunk_ids, prev_idx)"
    by (cases s) auto
  have i: "deps_in_order sequence" "n0 \<le> length sequence" "below (length sequence) chunk_ids"
    "\<And>p. prev_idx = Some p \<Longrightarrow> below (length sequence) [p]"
    using inv unfolding s chunked_inv_def by auto
  let ?deps0 = "(case per_chunk_dep of None \<Rightarrow> []
       | Some pcd \<Rightarrow> (if idx < length pcd then normalize_deps (pcd ! idx) else []))"
  let ?deps1 = "(if idx = 0 \<and> ?deps0 = [] \<and> base_list \<noteq> [] then ?deps0 @ base_list else ?deps0)"
  let ?deps2 = "(case prev_idx of None \<Rightarrow> ?deps1
       | Some p \<Rightarrow> (if enforce_sequential then ?deps1 @ [p] else ?deps1))"
  have d0: "below (length sequence) ?deps0"
  proof (cases per_chunk_dep)
    case None
    then show ?thesis by simp
  next
    case (Some l)
    show ?thesis
    proof (cases "idx < length l")
      case True
      then have "below n0 (normalize_deps (l ! idx))" using pcd[OF Some] by simp
      then show ?thesis using Some True i(2) by (auto intro: below_mono)
    next
      case False
      then show ?thesis using Some by simp
    qed
  qed
  have d1: "below (length sequence) ?deps1"
    using d0 base i(2) by (auto intro: below_mono)
  have d2: "below (length sequence) ?deps2"
    using d1 i(4) by (auto split: option.splits)
  have b: "below (Suc (length sequence)) chunk_ids"
    using i(3) by (rule below_mono) simp
  show ?thesis
    unfolding x s
    using i(1,2) d2 b sb
    by (simp add: chunked_inv_def append_stage_eq Let_def deps_in_order_snoc_set_deps)
qed

lemma append_chunked_stage_deps:
  assumes "deps_in_order sequence"
    and "below (length sequence) (normalize_deps base_dep)"
    and "\<And>pcd x. per_chunk_dep = Some pcd \<Longrightarrow> x \<in> set pcd \<Longrightarrow> below (length sequence) (normalize_deps x)"
    and "\<And>i t. deps (stage_builder i t) = None"
    and "append_chunked_stage sequence stage_builder plan base_dep per_chunk_dep enforce_sequential
           = (chunk_ids, sequence')"
  shows "deps_in_order sequence' \<and> length sequence \<le> length sequence' \<and>
         below (length sequence') chunk_ids"
proof (cases "plan = []")
  case True
  then show ?thesis using assms by (simp add: append_chunked_stage_def)
next
  case False
  let ?step = "chunked_stage_step stage_builder (normalize_deps base_dep) per_chunk_dep enforce_sequential"
  have "chunked_inv (length sequence) (fold ?step (py_enumerate plan) (sequence, [], None))"
  proof (rule fold_invariant)
    show "chunked_inv (length sequence) (sequence, [], None)"
      using assms(1) by (simp add: chunked_inv_def)
  next
    fix x s assume "chunked_inv (length sequence) s"
    then show "chunked_inv (length sequence) (?step x s)"
      using assms(2,3,4) by (intro chunked_stage_step_inv) auto
  qed
  moreover obtain r where "fold ?step (py_enumerate plan) (sequence, [], None) = (sequence', chunk_ids, r)"
    using assms(5) False by (auto simp: append_chunked_stage_def Let_def split: prod.splits)
  ultimately show ?thesis by (simp add: chunked_inv_def)
qed

subsection \<open>Dependency order in projections and expert chunks\<close>

lemmas dict_defs =
  stage_dict_def embed_dict_def projection_down_dict_def projection_linear_dict_def
  projection_up_dict_def attn_score_dict_def softmax_dict_def attn_mix_dict_def
  post_attention_dict_def moe_gating_dict_def moe_transfer_down_dict_def moe_linear_dict_def
  moe_transfer_up_dict_def moe_merge_dict_def postprocess_dict_def

lemma deps_dict [simp]:
  "deps (embed_dict f) = None"
  "deps (projection_down_dict f lbl l c sz r dg) = None"
  "deps (projection_linear_dict f lbl l c tok sz w r) = None"
  "deps (projection_up_dict f lbl l c sz r dg) = None"
  "deps (attn_score_dict f l c t) = None"
  "deps (softmax_dict f l c t) = None"
  "deps (attn_mix_dict f l c t) = None"
  "deps (post_attention_dict f l c t) = None"
  "deps (moe_gating_dict f l c t) = None"
  "deps (moe_transfer_down_dict f l c sz tr dg) = None"
  "deps (moe_linear_dict f l c sz es) = None"
  "deps (moe_transfer_up_dict f l c sz dg sr) = None"
  "deps (moe_merge_dict f l c t) = None"
  "deps (postprocess_dict f l c t) = None"
  by (simp_all add: dict_defs)

definition projection_inv :: "stage list \<times> int \<Rightarrow> bool" where
  "projection_inv s \<longleftrightarrow> (case s of (sequence, last_idx) \<Rightarrow>
      deps_in_order sequence \<and> below (length sequence) [last_idx])"

lemma projection_step_deps:
  assumes "projection_step f lbl l w r x s = Inr s'" "projection_inv s"
  shows "projection_inv s' \<and> length (fst s) \<le> length (fst s')"
proof -
  obtain c tok where x: "x = (c, tok)" by (cases x)
  obtain sequence last_idx where s: "s = (sequence, last_idx)" by (cases s)
  obtain sz where sz: "chunk_size_at f c = Inr sz"
    using assms(1) unfolding x s by (auto split: sum.splits)
  show ?thesis
    using assms unfolding x s
    by (auto simp: sz projection_inv_def append_stage_eq Let_def deps_in_order_append)
qed

lemma add_projection_deps:
  assumes "add_projection f sequence lbl l dep w dg r = Inr (last_idx, sequence')"
    and "deps_in_order sequence" "below (length sequence) [dep]"
  shows "deps_in_order sequence' \<and> length sequence \<le> length sequence' \<and>
         below (length sequence') [last_idx]"
proof -
  let ?P = "\<lambda>s. projection_inv s \<and> length sequence \<le> length (fst s)"
  have fe: "for_each (projection_step f lbl l w r) (py_enumerate (chunk_plan f)) (sequence, dep)
      = Inr (sequence', last_idx)"
    using assms(1) by (auto simp: add_projection_def split: sum.splits)
  have "?P (sequence', last_idx)"
  proof (rule for_each_invariant[OF fe, of ?P])
    show "?P (sequence, dep)" using assms(2,3) by (simp add: projection_inv_def)
  next
    fix x s s'
    assume "?P s" "projection_step f lbl l w r x s = Inr s'"
    then show "?P s'" using projection_step_deps[of f lbl l w r x s s'] by auto
  qed
  then show ?thesis by (simp add: projection_inv_def)
qed

definition moe_inv :: "nat \<Rightarrow> stage list \<times> int option \<times> int list \<Rightarrow> bool" where
  "moe_inv n0 s \<longleftrightarrow> (case s of (sequence, moe_prev, transfer_up_chunks) \<Rightarrow>
      deps_in_order sequence \<and> n0 \<le> length sequence \<and>
      (\<forall>p. moe_prev = Some p \<longrightarrow> below (length sequence) [p]) \<and>
      below (length sequence) transfer_up_chunks)"

lemma moe_chunk_step_deps:
  assumes "moe_chunk_step f l tmpl gating x s = Inr s'" "moe_inv n0 s" "below n0 gating"
  shows "moe_inv n0 s'"
proof -
  obtain c tok where x: "x = (c, tok)" by (cases x)
  obtain sequence moe_prev ups where s: "s = (sequence, moe_prev, ups)" by (cases s) auto
  obtain sz where sz: "chunk_size_at f c = Inr sz"
    using assms(1) unfolding x s by (auto split: sum.splits)
  have ne: "length (expert_chips f) \<noteq> 0"
    using assms(1) unfolding x s by (auto simp: sz split: if_splits)
  have i: "deps_in_order sequence" "n0 \<le> length sequence"
    "\<And>p. moe_prev = Some p \<Longrightarrow> below (length sequence) [p]" "below (length sequence) ups"
    using assms(2) unfolding s moe_inv_def by auto
  let ?down = "(if c < length gating then [gating ! c] else []) @
                  (case moe_prev of None \<Rightarrow> [] | Some p \<Rightarrow> [p])"
  have g: "below (length sequence) (if c < length gating then [gating ! c] else [])"
  proof (cases "c < length gating")
    case True
    then have "gating ! c \<in> set gating" by simp
    then have "0 \<le> gating ! c \<and> gating ! c < int n0" using assms(3) by (simp add: below_def)
    then show ?thesis using True i(2) by simp
  next
    case False
    then show ?thesis by simp
  qed
  have d: "below (length sequence) ?down"
    using g i(3) by (auto split: option.splits)
  have u: "below (Suc (Suc (Suc (length sequence)))) ups"
    using i(4) by (rule below_mono) simp
  show ?thesis
    using assms(1) i(1,2) d u ne unfolding x s
    by (auto simp: sz moe_inv_def append_stage_eq Let_def deps_in_order_append set_deps_None)
qed

subsection \<open>The steps of one layer\<close>

lemma build_layer_cases:
  assumes "build_layer f embed_stage l (sequence, prev_stage) = Inr (sequence', prev_stage')"
  obtains q_done s1 k_done s2 v_done s3 score s4 soft s5 mix s6 tail o_done s7 pa s8 gat s9
    s10 moe_prev ups merge s11 post
  where
    "add_projection f sequence ''q'' l (if l = 0 then embed_stage else prev_stage)
       (projection_weight_bytes f) (int l mod digital_chiplets f)
       (((int l * 4) mod rram_chiplets f + 0) mod rram_chiplets f) = Inr (q_done, s1)"
    "add_projection f s1 ''k'' l q_done (projection_weight_bytes f) (int l mod digital_chiplets f)
       (((int l * 4) mod rram_chiplets f + 1) mod rram_chiplets f) = Inr (k_done, s2)"
    "add_projection f s2 ''v'' l k_done (projection_weight_bytes f) (int l mod digital_chiplets f)
       (((int l * 4) mod rram_chiplets f + 2) mod rram_chiplets f) = Inr (v_done, s3)"
    "append_chunked_stage s3 (attn_score_dict f l) (chunk_plan f) (DSeq [q_done, k_done]) None False
       = (score, s4)"
    "append_chunked_stage s4 (softmax_dict f l) (chunk_plan f) DNone (Some (map DInt score)) False
       = (soft, s5)"
    "append_chunked_stage s5 (attn_mix_dict f l) (chunk_plan f) DNone
       (Some (map (\<lambda>idx. DSeq ((if idx < length soft then [soft ! idx] else []) @ [v_done]))
          (py_range (int (length (chunk_plan f)))))) False = (mix, s6)"
    "(if mix \<noteq> [] then py_last mix else if soft \<noteq> [] then py_last soft else py_last score)
       = Inr tail"
    "add_projection f s6 ''o'' l tail (projection_weight_bytes f) (int l mod digital_chiplets f)
       (((int l * 4) mod rram_chiplets f + 3) mod rram_chiplets f) = Inr (o_done, s7)"
    "append_chunked_stage s7 (post_attention_dict f l) (chunk_plan f) (DInt o_done) None False
       = (pa, s8)"
    "append_chunked_stage s8 (moe_gating_dict f l) (chunk_plan f) DNone (Some (map DInt pa)) True
       = (gat, s9)"
    "for_each (moe_chunk_step f l (map (expert_template f l) (py_range (num_experts f))) gat)
       (py_enumerate (chunk_plan f)) (s9, None, []) = Inr (s10, moe_prev, ups)"
    "append_chunked_stage s10 (moe_merge_dict f l) (chunk_plan f) DNone (Some (map DInt ups)) True
       = (merge, s11)"
    "append_chunked_stage s11 (postprocess_dict f l) (chunk_plan f) DNone (Some (map DInt merge)) True
       = (post, sequence')"
    "prev_stage' =
       (if post \<noteq> [] then last post
        else if merge \<noteq> [] then last merge
        else if ups \<noteq> [] then last ups
        else (case moe_prev of Some p \<Rightarrow> p | None \<Rightarrow> o_done))"
  using assms
  by (simp add: Let_def split: sum.splits prod.splits)

subsection \<open>Dependency order in a layer\<close>

lemma below_nth: "below n xs \<Longrightarrow> i < length xs \<Longrightarrow> below n [xs ! i]"
  by (simp add: below_def)

lemma below_last: "below n xs \<Longrightarrow> xs \<noteq> [] \<Longrightarrow> below n [last xs]"
  by (simp add: below_def)

lemma below_map_DInt:
  "below n xs \<Longrightarrow> x \<in> set (map DInt xs) \<Longrightarrow> below n (normalize_deps x)"
  by (auto simp: below_def)

lemma py_last_Inr: "py_last xs = Inr x \<Longrightarrow> xs \<noteq> [] \<and> x = last xs"
  by (auto simp: py_last_def split: if_splits)

definition layer_inv :: "stage list \<times> int \<Rightarrow> bool" where
  "layer_inv s \<longleftrightarrow> (case s of (sequence, prev_stage) \<Rightarrow>
      deps_in_order sequence \<and> below (length sequence) [prev_stage])"

lemma moe_loop_deps:
  assumes fe: "for_each (moe_chunk_step f l tmpl gat) xs (s9, None, []) = Inr (s10, moe_prev, ups)"
    and "deps_in_order s9" "below (length s9) gat"
  shows "deps_in_order s10 \<and> length s9 \<le> length s10 \<and> below (length s10) ups \<and>
         (\<forall>p. moe_prev = Some p \<longrightarrow> below (length s10) [p])"
proof -
  have "moe_inv (length s9) (s10, moe_prev, ups)"
  proof (rule for_each_invariant[OF fe, of "moe_inv (length s9)"])
    show "moe_inv (length s9) (s9, None, [])" using assms(2) by (simp add: moe_inv_def)
  next
    fix x s s'
    assume "moe_inv (length s9) s" "moe_chunk_step f l tmpl gat x s = Inr s'"
    then show "moe_inv (length s9) s'" using moe_chunk_step_deps assms(3) by blast
  qed
  then show ?thesis by (simp add: moe_inv_def)
qed

lemma build_layer_deps:
  assumes b: "build_layer f embed_stage l s = Inr s'"
    and inv: "layer_inv s" and e: "below (length (fst s)) [embed_stage]"
  shows "layer_inv s' \<and> length (fst s) \<le> length (fst s')"
proof -
  obtain sequence prev_stage where s: "s = (sequence, prev_stage)" by (cases s)
  obtain sequence' prev_stage' where s': "s' = (sequence', prev_stage')" by (cases s')
  have i: "deps_in_order sequence" "below (length sequence) [prev_stage]"
    "below (length sequence) [embed_stage]"
    using inv e unfolding s layer_inv_def by auto
  from b[unfolded s s'] show ?thesis
  proof (cases rule: build_layer_cases)
    case (1 q_done s1 k_done s2 v_done s3 score s4 soft s5 mix s6 tail o_done s7 pa s8 gat s9
        s10 moe_prev ups merge s11 post)
    have q: "deps_in_order s1" "length sequence \<le> length s1" "below (length s1) [q_done]"
      using add_projection_deps[OF 1(1) i(1)] i(2,3) by auto
    have k: "deps_in_order s2" "length s1 \<le> length s2" "below (length s2) [k_done]"
      using add_projection_deps[OF 1(2) q(1) q(3)] by auto
    have v: "deps_in_order s3" "length s2 \<le> length s3" "below (length s3) [v_done]"
      using add_projection_deps[OF 1(3) k(1) k(3)] by auto
    have qk: "below (length s3) (normalize_deps (DSeq [q_done, k_done]))"
      using q(3) k(2,3) v(2) by simp
    have sc: "deps_in_order s4" "length s3 \<le> length s4" "below (length s4) score"
      using append_chunked_stage_deps[OF v(1) qk _ _ 1(4)] by auto
    have so: "deps_in_order s5" "length s4 \<le> length s5" "below (length s5) soft"
      using append_chunked_stage_deps[OF sc(1) _ _ _ 1(5)] below_map_DInt[OF sc(3)] by auto
    have vd: "below (length s5) [v_done]"
      using v(3) sc(2) so(2) by simp
    have mx: "deps_in_order s6" "length s5 \<le> length s6" "below (length s6) mix"
    proof -
      have "\<And>pcd x. Some (map (\<lambda>idx. DSeq ((if idx < length soft then [soft ! idx] else []) @ [v_done]))
          (py_range (int (length (chunk_plan f))))) = Some pcd \<Longrightarrow> x \<in> set pcd \<Longrightarrow>
          below (length s5) (normalize_deps x)"
        using vd below_nth[OF so(3)] by auto
      then show "deps_in_order s6" "length s5 \<le> length s6" "below (length s6) mix"
        using append_chunked_stage_deps[OF so(1) _ _ _ 1(6)] by auto
    qed
    have tl: "below (length s6) [tail]"
    proof -
      have "below (length s6) score" using sc(3) so(2) mx(2) by (auto intro: below_mono)
      moreover have "below (length s6) soft" using so(3) mx(2) by (auto intro: below_mono)
      ultimately show ?thesis
        using 1(7) below_last[OF mx(3)] below_last[of "length s6" soft] below_last[of "length s6" score]
        by (auto split: if_splits dest!: py_last_Inr)
    qed
    have o: "deps_in_order s7" "length s6 \<le> length s7" "below (length s7) [o_done]"
      using add_projection_deps[OF 1(8) mx(1) tl] by auto
    have p: "deps_in_order s8" "length s7 \<le> length s8" "below (length s8) pa"
      using append_chunked_stage_deps[OF o(1) _ _ _ 1(9)] o(3) by auto
    have g: "deps_in_order s9" "length s8 \<le> length s9" "below (length s9) gat"
      using append_chunked_stage_deps[OF p(1) _ _ _ 1(10)] below_map_DInt[OF p(3)] by auto
    have m: "deps_in_order s10" "length s9 \<le> length s10" "below (length s10) ups"
      "\<And>p. moe_prev = Some p \<Longrightarrow> below (length s10) [p]"
      using moe_loop_deps[OF 1(11) g(1) g(3)] by auto
    have mg: "deps_in_order s11" "length s10 \<le> length s11" "below (length s11) merge"
      using append_chunked_stage_deps[OF m(1) _ _ _ 1(12)] below_map_DInt[OF m(3)] by auto
    have ps: "deps_in_order sequence'" "length s11 \<le> length sequence'" "below (length sequence') post"
      using append_chunked_stage_deps[OF mg(1) _ _ _ 1(13)] below_map_DInt[OF mg(3)] by auto
    have len: "length sequence \<le> length sequence'"
      using q(2) k(2) v(2) sc(2) so(2) mx(2) o(2) p(2) g(2) m(2) mg(2) ps(2) by linarith
    have od: "below (length sequence') [o_done]"
      using o(3) p(2) g(2) m(2) mg(2) ps(2) by simp
    have up: "below (length sequence') ups" using m(3) mg(2) ps(2) by (auto intro: below_mono)
    have mp: "\<And>p. moe_prev = Some p \<Longrightarrow> below (length sequence') [p]"
      using m(4) mg(2) ps(2) by (auto intro: below_mono)
    have me: "below (length sequence') merge" using mg(3) ps(2) by (auto intro: below_mono)
    have "below (length sequence') [prev_stage']"
      unfolding 1(14)
      using below_last[OF ps(3)] below_last[OF me] below_last[OF up] mp od
      by (auto split: option.splits)
    then show ?thesis using ps(1) len by (simp add: s s' layer_inv_def)
  qed
qed

subsection \<open>Dependency order in the whole sequence\<close>

lemma build_moe_sequence_deps:
  assumes "build_moe_sequence a = Inr sequence"
  shows "deps_in_order sequence"
proof -
  obtain f where f: "make_frame a = Inr f"
    using assms by (auto simp: build_moe_sequence_def split: sum.splits)
  let ?s0 = "[(embed_dict f)\<lparr>deps := Some []\<rparr>]"
  obtain prev where fe: "for_each (build_layer f 0) (py_range (layers f)) (?s0, 0) = Inr (sequence, prev)"
    using assms by (auto simp: build_moe_sequence_def f append_stage_eq split: sum.splits)
  let ?P = "\<lambda>s. layer_inv s \<and> 1 \<le> length (fst s)"
  have "?P (sequence, prev)"
  proof (rule for_each_invariant[OF fe, of ?P])
    show "?P (?s0, 0)"
      using deps_in_order_append[of "[]" ?s0] by (simp add: layer_inv_def deps_in_order_Nil)
  next
    fix x s s'
    assume a: "?P s" "build_layer f 0 x s = Inr s'"
    then have "below (length (fst s)) [0]" by (cases "fst s") auto
    then show "?P s'" using build_layer_deps[OF a(2)] a(1) by fastforce
  qed
  then show ?thesis by (simp add: layer_inv_def)
qed

text \<open>The same for the generator of \<^verbatim>\<open>tools/\<close>.\<close>

lemmas t_dict_defs =
  stage_dict_def t_host_load_dict_def t_embed_dict_def t_attn_dict_def t_softmax_dict_def
  t_gating_dict_def t_transfer_down_dict_def t_moe_linear_dict_def t_transfer_up_dict_def
  t_merge_dict_def t_postprocess_dict_def t_store_logits_dict_def

lemma t_deps_dict [simp]:
  "deps (t_host_load_dict f) = None"
  "deps (t_embed_dict f) = None"
  "deps (t_attn_dict f l dg) = None"
  "deps (t_softmax_dict f l dg) = None"
  "deps (t_gating_dict f l dg tmpl) = None"
  "deps (t_transfer_down_dict f l c n sz r dg) = None"
  "deps (t_moe_linear_dict f l c n sz es) = None"
  "deps (t_transfer_up_dict f l c n sz r dg) = None"
  "deps (t_merge_dict f l dg) = None"
  "deps (t_postprocess_dict f l dg) = None"
  "deps (t_store_logits_dict f) = None"
  by (simp_all add: t_dict_defs Let_def)

definition t_chunk_inv :: "nat \<Rightarrow> stage list \<times> int option \<Rightarrow> bool" where
  "t_chunk_inv n0 s \<longleftrightarrow> (case s of (sequence, last_transfer_up) \<Rightarrow>
      deps_in_order sequence \<and> n0 \<le> length sequence \<and>
      (\<forall>u. last_transfer_up = Some u \<longrightarrow> below (length sequence) [u]))"

lemma t_chunk_step_deps:
  assumes "t_chunk_inv n0 s" "below n0 [gating]"
  shows "t_chunk_inv n0 (t_chunk_step f l dg tmpl gating n c s)"
proof -
  obtain sequence ltu where s: "s = (sequence, ltu)" by (cases s)
  have i: "deps_in_order sequence" "n0 \<le> length sequence"
    "\<And>u. ltu = Some u \<Longrightarrow> below (length sequence) [u]"
    using assms(1) unfolding s t_chunk_inv_def by auto
  let ?dep = "(if c = 0 then [gating] else (case ltu of Some u \<Rightarrow> [u] | None \<Rightarrow> []))"
  have d: "below (length sequence) ?dep"
    using assms(2) i(2,3) by (auto split: option.splits)
  show ?thesis
    unfolding s using i(1,2) d
    by (simp add: t_chunk_inv_def append_stage_eq Let_def deps_in_order_append)
qed

lemma t_build_layer_deps:
  assumes "deps_in_order sequence" "sequence \<noteq> []"
  shows "deps_in_order (t_build_layer f l sequence) \<and> t_build_layer f l sequence \<noteq> []"
proof -
  let ?dg = "int l mod digital_chiplets f"
  let ?tmpl = "map (t_expert_template f l) (py_range (num_experts f))"
  let ?n = "max (ceil_div (t_activation_bytes_total f) (chunk_bytes f)) 1"
  let ?s3 = "sequence @ [set_deps sequence (t_attn_dict f l ?dg) None,
      (t_softmax_dict f l ?dg)\<lparr>deps := Some [int (length sequence)]\<rparr>,
      (t_gating_dict f l ?dg ?tmpl)\<lparr>deps := Some [int (length sequence) + 1]\<rparr>]"
  let ?g = "int (length sequence) + 2"
  let ?loop = "fold (t_chunk_step f l ?dg ?tmpl ?g ?n) (py_range ?n) (?s3, None)"
  have s3: "deps_in_order ?s3"
    using assms by (simp add: deps_in_order_append set_deps_None)
  have inv: "t_chunk_inv (length ?s3) ?loop"
  proof (rule fold_invariant)
    show "t_chunk_inv (length ?s3) (?s3, None)" using s3 by (simp add: t_chunk_inv_def)
  next
    fix x s assume "t_chunk_inv (length ?s3) s"
    then show "t_chunk_inv (length ?s3) (t_chunk_step f l ?dg ?tmpl ?g ?n x s)"
      by (rule t_chunk_step_deps) simp
  qed
  obtain s4 ltu where l: "?loop = (s4, ltu)" by (cases ?loop)
  have i: "deps_in_order s4" "length ?s3 \<le> length s4"
    "\<And>u. ltu = Some u \<Longrightarrow> below (length s4) [u]"
    using inv unfolding l t_chunk_inv_def by auto
  have g: "below (length s4) [?g]" using i(2) by simp
  have m: "below (length s4) (case ltu of Some u \<Rightarrow> [u] | None \<Rightarrow> [?g])"
    using i(3) g by (auto split: option.splits)
  have e: "t_build_layer f l sequence =
      s4 @ [(t_merge_dict f l ?dg)\<lparr>deps := Some (case ltu of Some u \<Rightarrow> [u] | None \<Rightarrow> [?g])\<rparr>,
            (t_postprocess_dict f l ?dg)\<lparr>deps := Some [int (length s4)]\<rparr>]"
    using l by (cases ltu) (simp_all add: t_build_layer_def append_stage_eq Let_def add.commute)
  show ?thesis unfolding e using i(1) m by (simp add: deps_in_order_append)
qed

lemma t_build_moe_sequence_deps:
  assumes "t_build_moe_sequence a = Inr sequence"
  shows "deps_in_order sequence"
proof -
  obtain f where f: "t_make_frame a = Inr f"
    using assms by (auto simp: t_build_moe_sequence_def split: sum.splits)
  let ?s2 = "[(t_host_load_dict f)\<lparr>deps := Some []\<rparr>, (t_embed_dict f)\<lparr>deps := Some [0]\<rparr>]"
  let ?s3 = "fold (t_build_layer f) (py_range (layers f)) ?s2"
  have "deps_in_order ?s3 \<and> ?s3 \<noteq> []"
  proof (rule fold_invariant)
    show "deps_in_order ?s2 \<and> ?s2 \<noteq> []"
      using deps_in_order_append[of "[]" ?s2] by (simp add: deps_in_order_Nil)
  next
    fix x s assume "deps_in_order s \<and> s \<noteq> []"
    then show "deps_in_order (t_build_layer f x s) \<and> t_build_layer f x s \<noteq> []"
      using t_build_layer_deps by blast
  qed
  moreover have "sequence = ?s3 @ [(t_store_logits_dict f)\<lparr>deps := Some [int (length ?s3) - 1]\<rparr>]"
    using assms calculation
    by (simp add: t_build_moe_sequence_def f append_stage_eq Let_def)
  ultimately show ?thesis by (simp add: deps_in_order_append)
qed

subsection \<open>What each step appends\<close>

definition chunk_dep_arg ::
  "int list \<Rightarrow> dep_value list option \<Rightarrow> bool \<Rightarrow> nat \<Rightarrow> int option \<Rightarrow> int list option" where
  "chunk_dep_arg base_list per_chunk_dep enforce_sequential idx prev_idx =
     (let deps0 = (case per_chunk_dep of
                     None \<Rightarrow> []
                   | Some pcd \<Rightarrow> (if idx < length pcd then normalize_deps (pcd ! idx) else []));
          deps1 = (if idx = 0 \<and> deps0 = [] \<and> base_list \<noteq> [] then deps0 @ base_list else deps0);
          deps2 = (case prev_idx of
                     None \<Rightarrow> deps1
                   | Some p \<Rightarrow> (if enforce_sequential then deps1 @ [p] else deps1))
      in if deps2 \<noteq> [] then Some deps2 else None)"

lemma chunked_stage_step_eq:
  "chunked_stage_step sb bl pcd es (idx, tok) (sequence, chunk_ids, prev_idx) =
     (sequence @ [set_deps sequence (sb idx tok) (chunk_dep_arg bl pcd es idx prev_idx)],
      chunk_ids @ [int (length sequence)], Some (int (length sequence)))"
  by (simp add: chunk_dep_arg_def append_stage_eq Let_def)

lemma projection_step_eq:
  assumes "chunk_size_at f c = Inr sz"
  shows "projection_step f lbl l w r (c, tok) (sequence, last_idx) =
     Inr (sequence @
            [(projection_down_dict f lbl l c sz r (chunk_digital_owner f l c))\<lparr>deps := Some [last_idx]\<rparr>,
             (projection_linear_dict f lbl l c tok sz w r)\<lparr>deps := Some [int (length sequence)]\<rparr>,
             (projection_up_dict f lbl l c sz r (chunk_digital_owner f l c))
               \<lparr>deps := Some [int (length sequence) + 1]\<rparr>],
          int (length sequence) + 2)"
  using assms by (simp add: append_stage_eq Let_def)

definition moe_target :: "frame \<Rightarrow> nat \<Rightarrow> int" where
  "moe_target f c =
     expert_chips f ! nat ((int c * experts_per_tok f) mod int (length (expert_chips f)))"

definition moe_down_deps :: "int list \<Rightarrow> nat \<Rightarrow> int option \<Rightarrow> int list option" where
  "moe_down_deps gating c moe_prev =
     (let down_deps = (if c < length gating then [gating ! c] else []) @
                      (case moe_prev of None \<Rightarrow> [] | Some p \<Rightarrow> [p])
      in if down_deps \<noteq> [] then Some down_deps else None)"

lemma moe_chunk_step_eq:
  assumes "chunk_size_at f c = Inr sz" "expert_chips f \<noteq> []"
  shows "moe_chunk_step f l tmpl gating (c, tok) (sequence, moe_prev, ups) =
     Inr (sequence @
            [set_deps sequence
               (moe_transfer_down_dict f l c sz (moe_target f c) (chunk_digital_owner f l c))
               (moe_down_deps gating c moe_prev),
             (moe_linear_dict f l c sz (map (chunk_expert f c sz) tmpl))
               \<lparr>deps := Some [int (length sequence)]\<rparr>,
             (moe_transfer_up_dict f l c sz (chunk_digital_owner f l c) (moe_target f c))
               \<lparr>deps := Some [int (length sequence) + 1]\<rparr>],
          Some (int (length sequence) + 2), ups @ [int (length sequence) + 2])"
  using assms by (simp add: append_stage_eq Let_def moe_target_def moe_down_deps_def)

lemma moe_chunk_step_Inr:
  assumes "moe_chunk_step f l tmpl gating (c, tok) s = Inr s'"
  obtains sz where "chunk_size_at f c = Inr sz" "expert_chips f \<noteq> []"
  using assms by (cases s) (auto split: sum.splits if_splits)

lemma projection_step_Inr:
  assumes "projection_step f lbl l w r (c, tok) s = Inr s'"
  obtains sz where "chunk_size_at f c = Inr sz"
  using assms by (cases s) (auto split: sum.splits)

lemma t_chunk_step_eq:
  "t_chunk_step f l dg tmpl gating n c (sequence, ltu) =
     (let sz = (if int c < n - 1 then chunk_bytes f
                else t_activation_bytes_total f - chunk_bytes f * (n - 1))
      in (sequence @
            [(t_transfer_down_dict f l c n sz (int c mod rram_chiplets f) dg)
               \<lparr>deps := Some (if c = 0 then [gating]
                               else (case ltu of Some u \<Rightarrow> [u] | None \<Rightarrow> []))\<rparr>,
             (t_moe_linear_dict f l c n sz (map (t_chunk_expert f c n sz) tmpl))
               \<lparr>deps := Some [int (length sequence)]\<rparr>,
             (t_transfer_up_dict f l c n sz (int c mod rram_chiplets f) dg)
               \<lparr>deps := Some [int (length sequence) + 1]\<rparr>],
          Some (int (length sequence) + 2)))"
  by (simp add: append_stage_eq Let_def)

declare chunked_stage_step.simps [simp del] projection_step.simps [simp del]
  moe_chunk_step.simps [simp del] t_chunk_step.simps [simp del] build_layer.simps [simp del]

subsection \<open>Appending only\<close>

definition strip :: "stage \<Rightarrow> stage" where
  "strip st = st\<lparr>deps := None\<rparr>"

lemma strip_set_deps [simp]: "strip (set_deps sequence st d) = strip st"
  by (simp add: strip_def set_deps_def split: option.splits)

lemma strip_update [simp]: "strip (st\<lparr>deps := d\<rparr>) = strip st"
  by (simp add: strip_def)

definition appends :: "(stage \<Rightarrow> bool) \<Rightarrow> stage list \<Rightarrow> stage list \<Rightarrow> bool" where
  "appends Q sequence sequence' \<longleftrightarrow>
     (\<exists>new. sequence' = sequence @ new \<and> (\<forall>st\<in>set new. Q (strip st)))"

lemma appends_refl: "appends Q sequence sequence"
  by (simp add: appends_def)

lemma appends_trans:
  "appends Q s1 s2 \<Longrightarrow> appends Q s2 s3 \<Longrightarrow> appends Q s1 s3"
  unfolding appends_def by (metis Un_iff append.assoc set_append)

lemma appends_mono:
  "appends Q s1 s2 \<Longrightarrow> (\<And>st. Q st \<Longrightarrow> R st) \<Longrightarrow> appends R s1 s2"
  unfolding appends_def by blast

lemma appends_new:
  "(\<And>st. st \<in> set new \<Longrightarrow> Q (strip st)) \<Longrightarrow> appends Q sequence (sequence @ new)"
  unfolding appends_def by blast

lemma appends_all:
  "appends Q s1 s2 \<Longrightarrow> \<forall>st\<in>set s1. Q (strip st) \<Longrightarrow> \<forall>st\<in>set s2. Q (strip st)"
  unfolding appends_def by auto

lemma appends_length: "appends Q s1 s2 \<Longrightarrow> length s1 \<le> length s2"
  unfolding appends_def by auto

lemma appends_nth: "appends Q s1 s2 \<Longrightarrow> i < length s1 \<Longrightarrow> s2 ! i = s1 ! i"
  unfolding appends_def by (auto simp: nth_append)

subsection \<open>The stages each builder appends\<close>

lemma strip_dict [simp]:
  "strip (embed_dict f) = embed_dict f"
  "strip (projection_down_dict f lbl l c sz r dg) = projection_down_dict f lbl l c sz r dg"
  "strip (projection_linear_dict f lbl l c tok sz w r) = projection_linear_dict f lbl l c tok sz w r"
  "strip (projection_up_dict f lbl l c sz r dg) = projection_up_dict f lbl l c sz r dg"
  "strip (attn_score_dict f l c t) = attn_score_dict f l c t"
  "strip (softmax_dict f l c t) = softmax_dict f l c t"
  "strip (attn_mix_dict f l c t) = attn_mix_dict f l c t"
  "strip (post_attention_dict f l c t) = post_attention_dict f l c t"
  "strip (moe_gating_dict f l c t) = moe_gating_dict f l c t"
  "strip (moe_transfer_down_dict f l c sz tr dg) = moe_transfer_down_dict f l c sz tr dg"
  "strip (moe_linear_dict f l c sz es) = moe_linear_dict f l c sz es"
  "strip (moe_transfer_up_dict f l c sz dg sr) = moe_transfer_up_dict f l c sz dg sr"
  "strip (moe_merge_dict f l c t) = moe_merge_dict f l c t"
  "strip (postprocess_dict f l c t) = postprocess_dict f l c t"
  by (simp_all add: strip_def dict_defs)

definition chunked_family :: "(nat \<Rightarrow> int \<Rightarrow> stage) \<Rightarrow> int list \<Rightarrow> stage \<Rightarrow> bool" where
  "chunked_family sb plan st \<longleftrightarrow> (\<exists>c<length plan. st = strip (sb c (plan ! c)))"

definition projection_family :: "frame \<Rightarrow> string \<Rightarrow> nat \<Rightarrow> int \<Rightarrow> int \<Rightarrow> stage \<Rightarrow> bool" where
  "projection_family f lbl l w r st \<longleftrightarrow>
     (\<exists>c sz. c < length (chunk_plan f) \<and> chunk_size_at f c = Inr sz \<and>
        (st = projection_down_dict f lbl l c sz r (chunk_digital_owner f l c) \<or>
         st = projection_linear_dict f lbl l c (chunk_plan f ! c) sz w r \<or>
         st = projection_up_dict f lbl l c sz r (chunk_digital_owner f l c)))"

definition moe_family :: "frame \<Rightarrow> nat \<Rightarrow> expert list \<Rightarrow> stage \<Rightarrow> bool" where
  "moe_family f l tmpl st \<longleftrightarrow>
     (\<exists>c sz. c < length (chunk_plan f) \<and> chunk_size_at f c = Inr sz \<and> expert_chips f \<noteq> [] \<and>
        (st = moe_transfer_down_dict f l c sz (moe_target f c) (chunk_digital_owner f l c) \<or>
         st = moe_linear_dict f l c sz (map (chunk_expert f c sz) tmpl) \<or>
         st = moe_transfer_up_dict f l c sz (chunk_digital_owner f l c) (moe_target f c)))"

lemma in_py_enumerate: "(c, tok) \<in> set (py_enumerate xs) \<longleftrightarrow> c < length xs \<and> tok = xs ! c"
proof
  assume "(c, tok) \<in> set (py_enumerate xs)"
  then show "c < length xs \<and> tok = xs ! c"
    by (auto simp: py_enumerate_def in_set_zip)
next
  assume a: "c < length xs \<and> tok = xs ! c"
  then have "(c, tok) = zip [0..<length xs] xs ! c" by simp
  moreover have "c < length (zip [0..<length xs] xs)" using a by simp
  ultimately show "(c, tok) \<in> set (py_enumerate xs)"
    unfolding py_enumerate_def by (metis nth_mem)
qed

lemma fold_appends:
  assumes "\<And>x s. x \<in> set xs \<Longrightarrow> appends Q (sq s) (sq (step x s))"
  shows "appends Q (sq s) (sq (fold step xs s))"
proof -
  have "appends Q (sq s) (sq (fold step xs s))"
  proof (rule fold_invariant[of "\<lambda>t. appends Q (sq s) (sq t)"])
    show "appends Q (sq s) (sq s)" by (rule appends_refl)
  next
    fix x t assume "x \<in> set xs" "appends Q (sq s) (sq t)"
    then show "appends Q (sq s) (sq (step x t))" using assms appends_trans by blast
  qed
  then show ?thesis .
qed

lemma for_each_appends:
  assumes "for_each body xs s = Inr s'"
    and "\<And>x t t'. x \<in> set xs \<Longrightarrow> body x t = Inr t' \<Longrightarrow> appends Q (sq t) (sq t')"
  shows "appends Q (sq s) (sq s')"
proof (rule for_each_invariant[OF assms(1), of "\<lambda>t. appends Q (sq s) (sq t)"])
  show "appends Q (sq s) (sq s)" by (rule appends_refl)
next
  fix x t t' assume "x \<in> set xs" "appends Q (sq s) (sq t)" "body x t = Inr t'"
  then show "appends Q (sq s) (sq t')" using assms(2) appends_trans by blast
qed

lemma append_chunked_stage_appends:
  assumes "append_chunked_stage sequence sb plan bd pcd es = (chunk_ids, sequence')"
  shows "appends (chunked_family sb plan) sequence sequence'"
proof (cases "plan = []")
  case True
  then show ?thesis using assms by (simp add: append_chunked_stage_def appends_refl)
next
  case False
  let ?step = "chunked_stage_step sb (normalize_deps bd) pcd es"
  let ?s0 = "(sequence, [] :: int list, None :: int option)"
  have "appends (chunked_family sb plan) (fst ?s0) (fst (fold ?step (py_enumerate plan) ?s0))"
  proof (rule fold_appends[where sq = fst])
    fix x and s :: "stage list \<times> int list \<times> int option"
    assume x: "x \<in> set (py_enumerate plan)"
    obtain c tok where xe: "x = (c, tok)" by (cases x)
    obtain sq ids prev where s: "s = (sq, ids, prev)" by (cases s) auto
    have "chunked_family sb plan (strip (sb c tok))"
      using x unfolding xe by (auto simp: chunked_family_def in_py_enumerate)
    then show "appends (chunked_family sb plan) (fst s) (fst (?step x s))"
      unfolding xe s by (auto simp: chunked_stage_step_eq intro!: appends_new)
  qed
  moreover have "fst (fold ?step (py_enumerate plan) (sequence, [], None)) = sequence'"
    using assms False by (auto simp: append_chunked_stage_def Let_def split: prod.splits)
  ultimately show ?thesis by simp
qed

lemma add_projection_appends:
  assumes "add_projection f sequence lbl l dep w dg r = Inr (last_idx, sequence')"
  shows "appends (projection_family f lbl l w r) sequence sequence'"
proof -
  have fe: "for_each (projection_step f lbl l w r) (py_enumerate (chunk_plan f)) (sequence, dep)
      = Inr (sequence', last_idx)"
    using assms by (auto simp: add_projection_def split: sum.splits)
  have "appends (projection_family f lbl l w r) (fst (sequence, dep)) (fst (sequence', last_idx))"
  proof (rule for_each_appends[OF fe, where sq = fst])
    fix x t t'
    assume x: "x \<in> set (py_enumerate (chunk_plan f))" and b: "projection_step f lbl l w r x t = Inr t'"
    obtain c tok where xe: "x = (c, tok)" by (cases x)
    obtain sq li where t: "t = (sq, li)" by (cases t)
    obtain sz where sz: "chunk_size_at f c = Inr sz"
      using b unfolding xe by (rule projection_step_Inr)
    have c: "c < length (chunk_plan f)" "tok = chunk_plan f ! c"
      using x unfolding xe by (auto simp: in_py_enumerate)
    have fam:
      "projection_family f lbl l w r (projection_down_dict f lbl l c sz r (chunk_digital_owner f l c))"
      "projection_family f lbl l w r (projection_linear_dict f lbl l c (chunk_plan f ! c) sz w r)"
      "projection_family f lbl l w r (projection_up_dict f lbl l c sz r (chunk_digital_owner f l c))"
      using c(1) sz unfolding projection_family_def by blast+
    show "appends (projection_family f lbl l w r) (fst t) (fst t')"
      using b[unfolded xe t projection_step_eq[OF sz]] c(2) fam unfolding t
      by (auto intro!: appends_new)
  qed
  then show ?thesis by simp
qed

lemma moe_loop_appends:
  assumes fe: "for_each (moe_chunk_step f l tmpl gat) (py_enumerate (chunk_plan f)) (s9, None, [])
      = Inr (s10, moe_prev, ups)"
  shows "appends (moe_family f l tmpl) s9 s10"
proof -
  have "appends (moe_family f l tmpl) (fst (s9, None :: int option, [] :: int list))
          (fst (s10, moe_prev, ups))"
  proof (rule for_each_appends[OF fe, where sq = fst])
    fix x and t t' :: "stage list \<times> int option \<times> int list"
    assume x: "x \<in> set (py_enumerate (chunk_plan f))" and b: "moe_chunk_step f l tmpl gat x t = Inr t'"
    obtain c tok where xe: "x = (c, tok)" by (cases x)
    obtain sq mp u where t: "t = (sq, mp, u)" by (cases t) auto
    obtain sz where sz: "chunk_size_at f c = Inr sz" "expert_chips f \<noteq> []"
      using b unfolding xe by (rule moe_chunk_step_Inr)
    have c: "c < length (chunk_plan f)"
      using x unfolding xe by (auto simp: in_py_enumerate)
    have fam:
      "moe_family f l tmpl (moe_transfer_down_dict f l c sz (moe_target f c) (chunk_digital_owner f l c))"
      "moe_family f l tmpl (moe_linear_dict f l c sz (map (chunk_expert f c sz) tmpl))"
      "moe_family f l tmpl (moe_transfer_up_dict f l c sz (chunk_digital_owner f l c) (moe_target f c))"
      using c sz unfolding moe_family_def by blast+
    show "appends (moe_family f l tmpl) (fst t) (fst t')"
      using b[unfolded xe t moe_chunk_step_eq[OF sz]] fam unfolding t
      by (auto intro!: appends_new)
  qed
  then show ?thesis by simp
qed

subsection \<open>The stages of a layer\<close>

definition layer_family :: "frame \<Rightarrow> nat \<Rightarrow> stage \<Rightarrow> bool" where
  "layer_family f l st \<longleftrightarrow>
     (\<exists>lbl x. projection_family f lbl l (projection_weight_bytes f) (x mod rram_chiplets f) st) \<or>
     chunked_family (attn_score_dict f l) (chunk_plan f) st \<or>
     chunked_family (softmax_dict f l) (chunk_plan f) st \<or>
     chunked_family (attn_mix_dict f l) (chunk_plan f) st \<or>
     chunked_family (post_attention_dict f l) (chunk_plan f) st \<or>
     chunked_family (moe_gating_dict f l) (chunk_plan f) st \<or>
     moe_family f l (map (expert_template f l) (py_range (num_experts f))) st \<or>
     chunked_family (moe_merge_dict f l) (chunk_plan f) st \<or>
     chunked_family (postprocess_dict f l) (chunk_plan f) st"

definition emitted :: "frame \<Rightarrow> stage \<Rightarrow> bool" where
  "emitted f st \<longleftrightarrow> st = embed_dict f \<or> (\<exists>l. layer_family f l st)"

lemma layer_family_projection:
  "projection_family f lbl l (projection_weight_bytes f) (x mod rram_chiplets f) st \<Longrightarrow>
   layer_family f l st"
  unfolding layer_family_def by blast

lemma build_layer_appends:
  assumes "build_layer f embed_stage l (sequence, prev_stage) = Inr (sequence', prev_stage')"
  shows "appends (layer_family f l) sequence sequence'"
  using assms
proof (cases rule: build_layer_cases)
  case (1 q_done s1 k_done s2 v_done s3 score s4 soft s5 mix s6 tail o_done s7 pa s8 gat s9
      s10 moe_prev ups merge s11 post)
  note m = appends_mono[where R = "layer_family f l"]
  have a1: "appends (layer_family f l) sequence s1"
    by (rule m[OF add_projection_appends[OF 1(1)]]) (rule layer_family_projection)
  have a2: "appends (layer_family f l) s1 s2"
    by (rule m[OF add_projection_appends[OF 1(2)]]) (rule layer_family_projection)
  have a3: "appends (layer_family f l) s2 s3"
    by (rule m[OF add_projection_appends[OF 1(3)]]) (rule layer_family_projection)
  have a4: "appends (layer_family f l) s3 s4"
    by (rule m[OF append_chunked_stage_appends[OF 1(4)]]) (simp add: layer_family_def)
  have a5: "appends (layer_family f l) s4 s5"
    by (rule m[OF append_chunked_stage_appends[OF 1(5)]]) (simp add: layer_family_def)
  have a6: "appends (layer_family f l) s5 s6"
    by (rule m[OF append_chunked_stage_appends[OF 1(6)]]) (simp add: layer_family_def)
  have a7: "appends (layer_family f l) s6 s7"
    by (rule m[OF add_projection_appends[OF 1(8)]]) (rule layer_family_projection)
  have a8: "appends (layer_family f l) s7 s8"
    by (rule m[OF append_chunked_stage_appends[OF 1(9)]]) (simp add: layer_family_def)
  have a9: "appends (layer_family f l) s8 s9"
    by (rule m[OF append_chunked_stage_appends[OF 1(10)]]) (simp add: layer_family_def)
  have a10: "appends (layer_family f l) s9 s10"
    by (rule m[OF moe_loop_appends[OF 1(11)]]) (simp add: layer_family_def)
  have a11: "appends (layer_family f l) s10 s11"
    by (rule m[OF append_chunked_stage_appends[OF 1(12)]]) (simp add: layer_family_def)
  have a12: "appends (layer_family f l) s11 sequence'"
    by (rule m[OF append_chunked_stage_appends[OF 1(13)]]) (simp add: layer_family_def)
  note t = appends_trans
  show ?thesis
    by (rule t[OF a1 t[OF a2 t[OF a3 t[OF a4 t[OF a5 t[OF a6 t[OF a7 t[OF a8 t[OF a9
          t[OF a10 t[OF a11 a12]]]]]]]]]]])
qed

lemma build_moe_sequence_unfold:
  assumes "build_moe_sequence a = Inr sequence"
  obtains f prev where "make_frame a = Inr f"
    "for_each (build_layer f 0) (py_range (layers f)) ([(embed_dict f)\<lparr>deps := Some []\<rparr>], 0)
       = Inr (sequence, prev)"
proof -
  obtain f where f: "make_frame a = Inr f"
    using assms by (auto simp: build_moe_sequence_def split: sum.splits)
  obtain prev where "for_each (build_layer f 0) (py_range (layers f))
      ([(embed_dict f)\<lparr>deps := Some []\<rparr>], 0) = Inr (sequence, prev)"
    using assms by (auto simp: build_moe_sequence_def f append_stage_eq split: sum.splits)
  then show ?thesis using that f by blast
qed

lemma build_moe_sequence_emitted:
  assumes "build_moe_sequence a = Inr sequence" "make_frame a = Inr f" "st \<in> set sequence"
  shows "emitted f (strip st)"
proof -
  obtain f' prev where f': "make_frame a = Inr f'"
    and fe: "for_each (build_layer f' 0) (py_range (layers f')) ([(embed_dict f')\<lparr>deps := Some []\<rparr>], 0)
       = Inr (sequence, prev)"
    using assms(1) by (rule build_moe_sequence_unfold)
  have ff: "f' = f" using f' assms(2) by simp
  let ?s0 = "([(embed_dict f)\<lparr>deps := Some []\<rparr>], 0 :: int)"
  have "appends (emitted f) (fst ?s0) (fst (sequence, prev))"
  proof (rule for_each_appends[OF fe[unfolded ff], where sq = fst])
    fix x and t t' :: "stage list \<times> int"
    assume "build_layer f 0 x t = Inr t'"
    then have "appends (layer_family f x) (fst t) (fst t')"
      using build_layer_appends[of f 0 x "fst t" "snd t" "fst t'" "snd t'"] by simp
    then show "appends (emitted f) (fst t) (fst t')"
      by (rule appends_mono) (simp add: emitted_def, blast)
  qed
  moreover have "\<forall>st\<in>set (fst ?s0). emitted f (strip st)" by (simp add: emitted_def)
  ultimately have "\<forall>st\<in>set (fst (sequence, prev)). emitted f (strip st)"
    by (rule appends_all)
  then show ?thesis using assms(3) by simp
qed

subsection \<open>Two concrete runs\<close>

definition scenario :: moe_args where
  "scenario = \<lparr>layers = 1, hidden_size = 8, intermediate_size = 16, num_experts = 2,
     experts_per_tok = 1, seq_length = 4, batch = 1, dtype_bytes = 2, digital_chiplets = 1,
     rram_chiplets = 1, digital_latency_scale = (\<lambda>h. Inr h), chunk_bytes = 1024\<rparr>"

definition two_chunks :: moe_args where
  "two_chunks = scenario\<lparr>chunk_bytes := 32, digital_chiplets := 2, rram_chiplets := 3\<rparr>"

definition two_chunks_frame :: frame where
  "two_chunks_frame =
     \<lparr>layers = 1, hidden_size = 8, intermediate_size = 16, num_experts = 2,
      experts_per_tok = 1, seq_length = 4, batch = 1, dtype_bytes = 2, digital_chiplets = 2,
      rram_chiplets = 3, digital_latency_scale = (\<lambda>h. Inr h), chunk_bytes = 32,
      tokens = 4, activation_bytes_total = 64, projection_weight_bytes = 128,
      expert_weight_bytes = 256, chunk_plan = [2, 2], chunk_byte_plan = [32, 32],
      num_chunks = 2, digital_latency_base = 8, expert_chips = [0, 1]\<rparr>"

lemma plan_4_2: "plan_loop 2 4 [] = [2, 2]"
  by (simp add: plan_loop_Cons plan_loop_stop)

lemma two_chunks_make_frame: "make_frame two_chunks = Inr two_chunks_frame"
  by (simp add: make_frame_def two_chunks_def scenario_def build_chunk_plan_def plan_4_2
      two_chunks_frame_def py_range_def Let_def upt_conv_Cons)

lemma frame_fields [simp]:
  "chunk_plan two_chunks_frame = [2, 2]" "chunk_byte_plan two_chunks_frame = [32, 32]"
  "expert_chips two_chunks_frame = [0, 1]" "layers two_chunks_frame = 1"
  "num_experts two_chunks_frame = 2" "experts_per_tok two_chunks_frame = 1"
  "digital_chiplets two_chunks_frame = 2" "rram_chiplets two_chunks_frame = 3"
  "projection_weight_bytes two_chunks_frame = 128"
  by (simp_all add: two_chunks_frame_def)

lemma enum2 [simp]: "py_enumerate [a, b] = [(0, a), (1, b)]"
  by (simp add: py_enumerate_def upt_conv_Cons)

lemma csz [simp]: "chunk_size_at two_chunks_frame 0 = Inr 32" "chunk_size_at two_chunks_frame (Suc 0) = Inr 32"
  by (simp_all add: chunk_size_at_def)

lemma q_proj:
  "\<exists>s. add_projection two_chunks_frame [embed_dict two_chunks_frame\<lparr>deps := Some []\<rparr>] ''q'' 0 0 128 0 0 = Inr (6, s) \<and> length s = 7"
  by (simp add: add_projection_def projection_step_eq)


lemmas eval_simps =
  build_moe_sequence_def build_layer.simps add_projection_def append_chunked_stage_def
  projection_step_eq moe_chunk_step_eq chunked_stage_step_eq chunk_dep_arg_def moe_down_deps_def
  append_stage_eq set_deps_None py_last_def py_range_def upt_conv_Cons Let_def

lemma two_chunks_eval:
  "\<exists>s. build_moe_sequence two_chunks = Inr s \<and> length s = 45 \<and>
     strip (s ! 20) = attn_score_dict two_chunks_frame 0 1 2 \<and>
     s ! 38 = (moe_transfer_down_dict two_chunks_frame 0 1 32 (moe_target two_chunks_frame 1)
                (chunk_digital_owner two_chunks_frame 0 1))\<lparr>deps := Some [34, 37]\<rparr>"
  by (simp add: two_chunks_make_frame eval_simps)

definition t_two_chunks_frame :: t_frame where
  "t_two_chunks_frame =
     \<lparr>layers = 1, hidden_size = 8, intermediate_size = 16, num_experts = 2,
      experts_per_tok = 1, seq_length = 4, batch = 1, dtype_bytes = 2, digital_chiplets = 2,
      rram_chiplets = 3, digital_latency_scale = (\<lambda>h. Inr h), chunk_bytes = 32,
      t_tokens = 4, t_activation_bytes_total = 64, t_expert_weight_bytes = 256,
      t_digital_latency_base = 8, t_host_dma_unit = 4096, t_host_load_latency = 8\<rparr>"

lemma t_two_chunks_make_frame: "t_make_frame two_chunks = Inr t_two_chunks_frame"
  by (simp add: t_make_frame_def two_chunks_def scenario_def t_two_chunks_frame_def Let_def
      ceil_div_def)

lemma t_frame_fields [simp]:
  "layers t_two_chunks_frame = 1" "num_experts t_two_chunks_frame = 2"
  "digital_chiplets t_two_chunks_frame = 2" "rram_chiplets t_two_chunks_frame = 3"
  "chunk_bytes t_two_chunks_frame = 32" "t_activation_bytes_total t_two_chunks_frame = 64"
  "t_host_load_latency t_two_chunks_frame = 8"
  by (simp_all add: t_two_chunks_frame_def)

lemmas t_eval_simps =
  t_build_moe_sequence_def t_build_layer_def t_chunk_step_eq append_stage_eq set_deps_None
  py_range_def upt_conv_Cons Let_def ceil_div_def

lemma t_two_chunks_eval:
  "\<exists>s. t_build_moe_sequence two_chunks = Inr s \<and> length s = 14 \<and>
     s ! 0 = (t_host_load_dict t_two_chunks_frame)\<lparr>deps := Some []\<rparr> \<and>
     s ! 8 = (t_transfer_down_dict t_two_chunks_frame 0 1 2 32 1 0)\<lparr>deps := Some [7]\<rparr> \<and>
     s ! 10 = (t_transfer_up_dict t_two_chunks_frame 0 1 2 32 1 0)\<lparr>deps := Some [9]\<rparr>"
  by (simp add: t_two_chunks_make_frame t_eval_simps)

text \<open>
  Claim C1. In every sequence either generator returns, for any arguments, each index in
  the \<open>deps\<close> list of the stage at position \<open>i\<close> is non-negative and strictly less than
  \<open>i\<close>: no stage refers to itself or to a later stage, so the order of the list is a
  topological order.
\<close>

theorem deps_strictly_earlier:
  assumes "build_moe_sequence a = Inr sequence \<or> t_build_moe_sequence a = Inr sequence"
    and "i < length sequence" and "deps (sequence ! i) = Some ds" and "d \<in> set ds"
  shows "0 \<le> d \<and> d < int i"
proof -
  have "deps_in_order sequence"
    using assms(1) build_moe_sequence_deps t_build_moe_sequence_deps by blast
  then show ?thesis using assms(2,3,4) unfolding deps_in_order_def by blast
qed

theorem deps_strictly_earlier_witness:
  "(\<exists>s. build_moe_sequence two_chunks = Inr s \<and> 38 < length s \<and>
        deps (s ! 38) = Some [34, 37] \<and> (0::int) \<le> 37 \<and> (37::int) < int 38) \<and>
   (\<exists>s. t_build_moe_sequence two_chunks = Inr s \<and> 8 < length s \<and>
        deps (s ! 8) = Some [7] \<and> (0::int) \<le> 7 \<and> (7::int) < int 8)"
proof -
  obtain s where s: "build_moe_sequence two_chunks = Inr s" "length s = 45"
    "s ! 38 = (moe_transfer_down_dict two_chunks_frame 0 1 32 (moe_target two_chunks_frame 1)
                (chunk_digital_owner two_chunks_frame 0 1))\<lparr>deps := Some [34, 37]\<rparr>"
    using two_chunks_eval by blast
  have d: "deps (s ! 38) = Some [34, 37]" unfolding s(3) by simp
  have "(0::int) \<le> 37 \<and> (37::int) < int 38"
    using deps_strictly_earlier[of two_chunks s 38 "[34, 37]" 37] s(1,2) d by simp
  then have a: "\<exists>s. build_moe_sequence two_chunks = Inr s \<and> 38 < length s \<and>
        deps (s ! 38) = Some [34, 37] \<and> (0::int) \<le> 37 \<and> (37::int) < int 38"
    using s(1,2) d by auto
  obtain t where t: "t_build_moe_sequence two_chunks = Inr t" "length t = 14"
    "t ! 8 = (t_transfer_down_dict t_two_chunks_frame 0 1 2 32 1 0)\<lparr>deps := Some [7]\<rparr>"
    using t_two_chunks_eval by blast
  have e: "deps (t ! 8) = Some [7]" unfolding t(3) by simp
  have "(0::int) \<le> 7 \<and> (7::int) < int 8"
    using deps_strictly_earlier[of two_chunks t 8 "[7]" 7] t(1,2) e by simp
  then have b: "\<exists>s. t_build_moe_sequence two_chunks = Inr s \<and> 8 < length s \<and>
        deps (s ! 8) = Some [7] \<and> (0::int) \<le> 7 \<and> (7::int) < int 8"
    using t(1,2) e by auto
  show ?thesis using a b by blast
qed

end
